theory Spec2Isabelle
  imports Main
begin

section \<open>Python strings and lists\<close>

text \<open>
  A Python \<^verbatim>\<open>str\<close> is modelled as a list of 8-bit characters.  The characters 0 to 127
  are the ASCII code points.  The characters 128 to 255 stand for the lone surrogates
  U+DC80 to U+DCFF, by which Python represents a byte that it could not decode and which
  a JSON text can carry: such a character is no white space and no word character, has
  no other case, and cannot be encoded as UTF-8.  All other code points are outside the
  model.  On this alphabet the definitions below are those of CPython:
  \<^verbatim>\<open>str.isspace\<close> (used by \<^verbatim>\<open>strip\<close> and by the regular-expression class \<^verbatim>\<open>\s\<close>), the
  word characters of \<^verbatim>\<open>\w\<close>, \<^verbatim>\<open>str.lower\<close> and \<^verbatim>\<open>str.upper\<close>.
\<close>

definition isascii :: "char \<Rightarrow> bool" where
  "isascii c = ((of_char c :: nat) < 128)"

definition isspace :: "char \<Rightarrow> bool" where
  "isspace c = (let n = (of_char c :: nat) in (9 \<le> n \<and> n \<le> 13) \<or> (28 \<le> n \<and> n \<le> 32))"

definition isword :: "char \<Rightarrow> bool" where
  "isword c = (let n = (of_char c :: nat) in
     (48 \<le> n \<and> n \<le> 57) \<or> (65 \<le> n \<and> n \<le> 90) \<or> n = 95 \<or> (97 \<le> n \<and> n \<le> 122))"

abbreviation NL :: char where
  "NL \<equiv> CHR 0x0A"

abbreviation CR :: char where
  "CR \<equiv> CHR 0x0D"

definition lower_chr :: "char \<Rightarrow> char" where
  "lower_chr c = (let n = (of_char c :: nat) in
     if 65 \<le> n \<and> n \<le> 90 then char_of (n + 32) else c)"

definition upper_chr :: "char \<Rightarrow> char" where
  "upper_chr c = (let n = (of_char c :: nat) in
     if 97 \<le> n \<and> n \<le> 122 then char_of (n - 32) else c)"

text \<open>Whether \<^verbatim>\<open>s.encode('utf-8')\<close> succeeds.\<close>

definition encodable :: "string \<Rightarrow> bool" where
  "encodable s = list_all isascii s"

definition lower :: "string \<Rightarrow> string" where
  "lower s = map lower_chr s"

definition upper :: "string \<Rightarrow> string" where
  "upper s = map upper_chr s"

definition lstrip :: "string \<Rightarrow> string" where
  "lstrip s = dropWhile isspace s"

definition rstrip :: "string \<Rightarrow> string" where
  "rstrip s = rev (dropWhile isspace (rev s))"

definition strip :: "string \<Rightarrow> string" where
  "strip s = lstrip (rstrip s)"

text \<open>\<^verbatim>\<open>s.rstrip(chars)\<close> with an explicit set of characters.\<close>

definition rstrip_chars :: "string \<Rightarrow> string \<Rightarrow> string" where
  "rstrip_chars chars s = rev (dropWhile (\<lambda>c. c \<in> set chars) (rev s))"

definition startswith :: "string \<Rightarrow> string \<Rightarrow> bool" where
  "startswith s p = (take (length p) s = p)"

definition endswith :: "string \<Rightarrow> string \<Rightarrow> bool" where
  "endswith s p = (length p \<le> length s \<and> drop (length s - length p) s = p)"

text \<open>The operator \<^verbatim>\<open>p in s\<close> on strings.\<close>

fun contains :: "string \<Rightarrow> string \<Rightarrow> bool" where
  "contains p [] = (p = [])"
| "contains p (c # cs) = (startswith (c # cs) p \<or> contains p cs)"

text \<open>
  \<^verbatim>\<open>s.split(sep)\<close>, \<^verbatim>\<open>s.count(sub)\<close> and \<^verbatim>\<open>s.replace(old, new)\<close> scan from the left
  over non-overlapping occurrences; \<open>skip\<close> counts the characters of the occurrence just
  found that are still to be passed over.  Every separator in the sources is a non-empty
  literal.
\<close>

fun split_aux :: "string \<Rightarrow> nat \<Rightarrow> string \<Rightarrow> string \<Rightarrow> string list" where
  "split_aux sep skip acc [] = [rev acc]"
| "split_aux sep skip acc (c # cs) =
     (if skip > 0 then split_aux sep (skip - 1) acc cs
      else if startswith (c # cs) sep then rev acc # split_aux sep (length sep - 1) [] cs
      else split_aux sep 0 (c # acc) cs)"

definition split :: "string \<Rightarrow> string \<Rightarrow> string list" where
  "split sep s = split_aux sep 0 [] s"

text \<open>\<^verbatim>\<open>s.split(sep, 1)\<close>: at most one cut, at the first occurrence.\<close>

fun split1_aux :: "string \<Rightarrow> string \<Rightarrow> string \<Rightarrow> string list" where
  "split1_aux sep acc [] = [rev acc]"
| "split1_aux sep acc (c # cs) =
     (if startswith (c # cs) sep then [rev acc, drop (length sep) (c # cs)]
      else split1_aux sep (c # acc) cs)"

definition split1 :: "string \<Rightarrow> string \<Rightarrow> string list" where
  "split1 sep s = split1_aux sep [] s"

fun count_aux :: "string \<Rightarrow> nat \<Rightarrow> string \<Rightarrow> nat" where
  "count_aux sub skip [] = 0"
| "count_aux sub skip (c # cs) =
     (if skip > 0 then count_aux sub (skip - 1) cs
      else if startswith (c # cs) sub then Suc (count_aux sub (length sub - 1) cs)
      else count_aux sub 0 cs)"

definition count_sub :: "string \<Rightarrow> string \<Rightarrow> nat" where
  "count_sub sub s = count_aux sub 0 s"

fun replace_aux :: "string \<Rightarrow> string \<Rightarrow> nat \<Rightarrow> string \<Rightarrow> string" where
  "replace_aux old new skip [] = []"
| "replace_aux old new skip (c # cs) =
     (if skip > 0 then replace_aux old new (skip - 1) cs
      else if startswith (c # cs) old then new @ replace_aux old new (length old - 1) cs
      else c # replace_aux old new 0 cs)"

definition replace :: "string \<Rightarrow> string \<Rightarrow> string \<Rightarrow> string" where
  "replace old new s = replace_aux old new 0 s"

text \<open>\<^verbatim>\<open>sep.join(xs)\<close>.\<close>

fun join :: "string \<Rightarrow> string list \<Rightarrow> string" where
  "join sep [] = []"
| "join sep [x] = x"
| "join sep (x # y # ys) = x @ sep @ join sep (y # ys)"

text \<open>
  A file opened for reading in text mode has universal newlines: a carriage return
  followed by a line feed, and a carriage return alone, are read as one line feed.
\<close>

fun universal_newlines :: "string \<Rightarrow> string" where
  "universal_newlines [] = []"
| "universal_newlines [c] = [if c = CR then NL else c]"
| "universal_newlines (c # d # ds) =
     (if c = CR \<and> d = NL then NL # universal_newlines ds
      else if c = CR then NL # universal_newlines (d # ds)
      else c # universal_newlines (d # ds))"

text \<open>
  \<^verbatim>\<open>f.readlines()\<close> on the stored text of a file: after the translation of newlines,
  every line keeps its terminating line feed, a last line without one is kept as it is,
  and an empty text has no line.  \<^verbatim>\<open>f.writelines(lines)\<close> writes the concatenation; on
  a POSIX system a line feed is written as it is.
\<close>

fun readlines_aux :: "string \<Rightarrow> string \<Rightarrow> string list" where
  "readlines_aux acc [] = (if acc = [] then [] else [rev acc])"
| "readlines_aux acc (c # cs) =
     (if c = NL then rev (c # acc) # readlines_aux [] cs else readlines_aux (c # acc) cs)"

definition readlines :: "string \<Rightarrow> string list" where
  "readlines text = readlines_aux [] (universal_newlines text)"

definition writelines :: "string list \<Rightarrow> string" where
  "writelines lines = concat lines"

text \<open>
  Exceptions of the fix engine that the model can reach.  \<open>OSError\<close> stands for a
  failure to open a path, \<open>UnicodeError\<close> for \<^verbatim>\<open>UnicodeDecodeError\<close> and
  \<^verbatim>\<open>UnicodeEncodeError\<close>.
\<close>

datatype exn = IndexError | OSError | UnicodeError

text \<open>
  Python list indexing: a negative index counts from the end, and an index outside
  \<^verbatim>\<open>-len .. len-1\<close> raises \<^verbatim>\<open>IndexError\<close>.  \<^verbatim>\<open>list.insert\<close> clamps instead.
\<close>

definition py_index :: "int \<Rightarrow> nat \<Rightarrow> nat option" where
  "py_index i n =
     (if 0 \<le> i \<and> i < int n then Some (nat i)
      else if i < 0 \<and> - i \<le> int n then Some (nat (int n + i))
      else None)"

definition py_get :: "'a list \<Rightarrow> int \<Rightarrow> exn + 'a" where
  "py_get xs i = (case py_index i (length xs) of None \<Rightarrow> Inl IndexError | Some k \<Rightarrow> Inr (xs ! k))"

definition py_set :: "'a list \<Rightarrow> int \<Rightarrow> 'a \<Rightarrow> exn + 'a list" where
  "py_set xs i v = (case py_index i (length xs) of None \<Rightarrow> Inl IndexError | Some k \<Rightarrow> Inr (xs[k := v]))"

definition py_del :: "'a list \<Rightarrow> int \<Rightarrow> exn + 'a list" where
  "py_del xs i =
     (case py_index i (length xs) of None \<Rightarrow> Inl IndexError | Some k \<Rightarrow> Inr (take k xs @ drop (Suc k) xs))"

definition py_insert :: "'a list \<Rightarrow> int \<Rightarrow> 'a \<Rightarrow> 'a list" where
  "py_insert xs i v =
     (let n = int (length xs);
          j = (if i < 0 then max 0 (n + i) else min n i)
      in take (nat j) xs @ [v] @ drop (nat j) xs)"

section \<open>The regular expressions of the fixer\<close>

text \<open>
  Python's \<^verbatim>\<open>re\<close> is a backtracking matcher: alternatives are tried from the left, a
  greedy repetition tries the longer match first and a lazy one the shorter.  The
  patterns of \<^verbatim>\<open>fixer.py\<close> repeat single characters only and have no nested groups, so
  a pattern is a list of items over these atoms:
  one character of a class; a greedy repetition of a class with a minimal count (\<^verbatim>\<open>*\<close>
  is count 0, \<^verbatim>\<open>+\<close> is count 1); an optional character (\<^verbatim>\<open>?\<close>); a lazy repetition
  (\<^verbatim>\<open>*?\<close>); the anchor \<^verbatim>\<open>$\<close>; the word boundary \<^verbatim>\<open>\b\<close>; the opening and the closing
  parenthesis of a capturing group.  \<open>Alt\<close> is an alternation of two atom sequences.
\<close>

datatype atom =
    One "char \<Rightarrow> bool"
  | Greedy nat "char \<Rightarrow> bool"
  | Opt "char \<Rightarrow> bool"
  | Lazy "char \<Rightarrow> bool"
  | Eol
  | WordB
  | Open
  | Close

datatype item = A atom | Alt "atom list" "atom list"

fun weight :: "item \<Rightarrow> nat" where
  "weight (A a) = 1"
| "weight (Alt a b) = Suc (length a + length b)"

text \<open>
  \<open>rmatch items pv pos opn caps s\<close> matches the items at the front of \<open>s\<close>.  \<open>pv\<close> is
  the character before the current position (for \<^verbatim>\<open>\b\<close>), \<open>pos\<close> the current position,
  \<open>opn\<close> the position of the last opening parenthesis and \<open>caps\<close> the spans of the
  groups closed so far.  The result is the end position and the spans of the first
  match in backtracking order.
\<close>

function rmatch ::
  "item list \<Rightarrow> char option \<Rightarrow> nat \<Rightarrow> nat \<Rightarrow> (nat \<times> nat) list \<Rightarrow> string
     \<Rightarrow> (nat \<times> (nat \<times> nat) list) option" where
  "rmatch [] pv pos opn caps s = Some (pos, caps)"
| "rmatch (A (One p) # r) pv pos opn caps [] = None"
| "rmatch (A (One p) # r) pv pos opn caps (c # cs) =
     (if p c then rmatch r (Some c) (Suc pos) opn caps cs else None)"
| "rmatch (A (Greedy n p) # r) pv pos opn caps [] =
     (if n = 0 then rmatch r pv pos opn caps [] else None)"
| "rmatch (A (Greedy n p) # r) pv pos opn caps (c # cs) =
     (if p c then
        (case rmatch (A (Greedy (n - 1) p) # r) (Some c) (Suc pos) opn caps cs of
           Some m \<Rightarrow> Some m
         | None \<Rightarrow> if n = 0 then rmatch r pv pos opn caps (c # cs) else None)
      else if n = 0 then rmatch r pv pos opn caps (c # cs) else None)"
| "rmatch (A (Opt p) # r) pv pos opn caps [] = rmatch r pv pos opn caps []"
| "rmatch (A (Opt p) # r) pv pos opn caps (c # cs) =
     (if p c then
        (case rmatch r (Some c) (Suc pos) opn caps cs of
           Some m \<Rightarrow> Some m
         | None \<Rightarrow> rmatch r pv pos opn caps (c # cs))
      else rmatch r pv pos opn caps (c # cs))"
| "rmatch (A (Lazy p) # r) pv pos opn caps [] = rmatch r pv pos opn caps []"
| "rmatch (A (Lazy p) # r) pv pos opn caps (c # cs) =
     (case rmatch r pv pos opn caps (c # cs) of
        Some m \<Rightarrow> Some m
      | None \<Rightarrow> if p c then rmatch (A (Lazy p) # r) (Some c) (Suc pos) opn caps cs else None)"
| "rmatch (A Eol # r) pv pos opn caps s =
     (if s = [] \<or> s = [NL] then rmatch r pv pos opn caps s else None)"
| "rmatch (A WordB # r) pv pos opn caps s =
     (if (case pv of None \<Rightarrow> False | Some c \<Rightarrow> isword c)
         \<noteq> (case s of [] \<Rightarrow> False | c # cs \<Rightarrow> isword c)
      then rmatch r pv pos opn caps s else None)"
| "rmatch (A Open # r) pv pos opn caps s = rmatch r pv pos pos caps s"
| "rmatch (A Close # r) pv pos opn caps s = rmatch r pv pos opn (caps @ [(opn, pos)]) s"
| "rmatch (Alt a b # r) pv pos opn caps s =
     (case rmatch (map A a @ r) pv pos opn caps s of
        Some m \<Rightarrow> Some m
      | None \<Rightarrow> rmatch (map A b @ r) pv pos opn caps s)"
  by pat_completeness auto

lemma weight_map_A [simp]: "sum_list (map (weight \<circ> A) a) = length a"
  by (induction a) auto

termination rmatch
  by (relation "inv_image (less_than <*lex*> less_than)
        (\<lambda>(items, pv, pos, opn, caps, s). (sum_list (map weight items), length s))")
     auto

text \<open>
  \<^verbatim>\<open>re.search\<close>: the first start position, from the left, at which the pattern matches.
  The result is the start, the end and the spans of the groups, as positions in the
  string searched.
\<close>

fun search_from ::
  "item list \<Rightarrow> char option \<Rightarrow> nat \<Rightarrow> string \<Rightarrow> (nat \<times> nat \<times> (nat \<times> nat) list) option" where
  "search_from rx pv st [] =
     (case rmatch rx pv st st [] [] of Some (e, caps) \<Rightarrow> Some (st, e, caps) | None \<Rightarrow> None)"
| "search_from rx pv st (c # cs) =
     (case rmatch rx pv st st [] (c # cs) of
        Some (e, caps) \<Rightarrow> Some (st, e, caps)
      | None \<Rightarrow> search_from rx (Some c) (Suc st) cs)"

definition substr :: "string \<Rightarrow> nat \<times> nat \<Rightarrow> string" where
  "substr s span = take (snd span - fst span) (drop (fst span) s)"

text \<open>The groups of \<^verbatim>\<open>re.search(rx, s)\<close> as strings, \<open>None\<close> when there is no match.\<close>

definition re_search :: "item list \<Rightarrow> string \<Rightarrow> string list option" where
  "re_search rx s =
     (case search_from rx None 0 s of
        None \<Rightarrow> None
      | Some (st, e, caps) \<Rightarrow> Some (map (substr s) caps))"

text \<open>
  \<^verbatim>\<open>re.sub(rx, repl, s, count)\<close>: the non-overlapping matches from the left are replaced
  by \<open>repl\<close> of their groups; \<open>cnt\<close> is the number of replacements still allowed
  (\<open>None\<close> for no limit).  After an empty match the next character is copied.
\<close>

function sub_from ::
  "item list \<Rightarrow> (string list \<Rightarrow> string) \<Rightarrow> nat option \<Rightarrow> char option \<Rightarrow> string \<Rightarrow> string" where
  "sub_from rx repl cnt pv s =
     (if cnt = Some 0 then s
      else case rmatch rx pv 0 0 [] s of
        None \<Rightarrow> (case s of [] \<Rightarrow> [] | c # cs \<Rightarrow> c # sub_from rx repl cnt (Some c) cs)
      | Some (e, caps) \<Rightarrow>
          (let out = repl (map (substr s) caps);
               cnt' = map_option (\<lambda>k. k - 1) cnt
           in if 0 < e \<and> e \<le> length s
              then out @ sub_from rx repl cnt' (Some (s ! (e - 1))) (drop e s)
              else case s of [] \<Rightarrow> out
                   | c # cs \<Rightarrow> out @ c # sub_from rx repl cnt' (Some c) cs))"
  by pat_completeness auto

termination sub_from
  by (relation "measure (\<lambda>(rx, repl, cnt, pv, s). length s)") auto

definition re_sub :: "item list \<Rightarrow> (string list \<Rightarrow> string) \<Rightarrow> nat option \<Rightarrow> string \<Rightarrow> string" where
  "re_sub rx repl cnt s = sub_from rx repl cnt None s"

text \<open>A literal string as a pattern, and its case-insensitive variant (\<^verbatim>\<open>re.IGNORECASE\<close>).\<close>

definition lit :: "string \<Rightarrow> item list" where
  "lit s = map (\<lambda>c. A (One (\<lambda>x. x = c))) s"

definition lit_i :: "string \<Rightarrow> item list" where
  "lit_i s = map (\<lambda>c. A (One (\<lambda>x. lower_chr x = lower_chr c))) s"

definition dot :: "char \<Rightarrow> bool" where
  "dot c = (c \<noteq> NL)"

section \<open>Data model (app.models as used by the orchestrator and the fixer)\<close>

text \<open>
  The enumeration of failure kinds.  The dispatcher of \<^verbatim>\<open>fixer.py\<close> tests a record's
  type against exactly these six members.
\<close>

datatype ErrorType = SYNTAX | INDENTATION | TYPE_ERROR | IMPORT | LOGIC | LINTING

text \<open>One classified failure: \<^verbatim>\<open>ErrorInfo(type, file, line, message)\<close>.\<close>

record ErrorInfo =
  ei_type :: ErrorType
  ei_file :: string
  ei_line :: int
  ei_message :: string

text \<open>
  One entry of the run's audit trail: \<^verbatim>\<open>FixResult(file, line, type, commit_message, status)\<close>.
  The status is the Python string \<^verbatim>\<open>"Fixed"\<close> or \<^verbatim>\<open>"Failed"\<close>.
\<close>

record FixResult =
  fr_file :: string
  fr_line :: int
  fr_type :: string
  fr_commit_message :: string
  fr_status :: string

text \<open>The final report: \<^verbatim>\<open>AgentResponse\<close>.\<close>

record AgentResponse =
  ar_repo :: string
  ar_branch :: string
  ar_total_failures :: nat
  ar_total_fixes :: nat
  ar_iterations :: nat
  ar_status :: string
  ar_fixes :: "FixResult list"

section \<open>The file system seen by the fixer\<close>

text \<open>
  The file system maps a path to what is found there: a regular file with its stored
  text, or something that is not a regular file (a directory).  A character above 127
  in the stored text is a byte that is not valid UTF-8.  Paths are those of a POSIX
  system without links: the keys of the map are paths without empty components and
  without components \<^verbatim>\<open>.\<close>, and a component \<^verbatim>\<open>..\<close> is not resolved.  Permissions and
  failures of the storage device are outside the model.
\<close>

datatype node = Text string | Unreadable

type_synonym fs = "string \<rightharpoonup> node"

text \<open>\<^verbatim>\<open>os.path.join(a, b)\<close> on a POSIX system.\<close>

definition path_join :: "string \<Rightarrow> string \<Rightarrow> string" where
  "path_join a b =
     (if startswith b ''/'' then b
      else if a = [] \<or> endswith a ''/'' then a @ b
      else a @ ''/'' @ b)"

text \<open>
  How the operating system reads a path: empty components and components \<^verbatim>\<open>.\<close> do
  not count, and a path that ends in one of them names a directory, so it does not
  find a regular file.  The empty path names nothing.
\<close>

definition norm_path :: "string \<Rightarrow> string" where
  "norm_path p =
     (if startswith p ''/'' then ''/'' else [])
     @ join ''/'' (filter (\<lambda>c. c \<noteq> [] \<and> c \<noteq> ''.'') (split ''/'' p))"

definition names_directory :: "string \<Rightarrow> bool" where
  "names_directory p = (last (split ''/'' p) = [] \<or> last (split ''/'' p) = ''.'')"

definition lookup :: "fs \<Rightarrow> string \<Rightarrow> node option" where
  "lookup fs p =
     (if p = [] then None
      else case fs (norm_path p) of
        Some (Text t) \<Rightarrow> if names_directory p then None else Some (Text t)
      | other \<Rightarrow> other)"

text \<open>
  \<^verbatim>\<open>open(path, 'r', encoding='utf-8')\<close> followed by \<^verbatim>\<open>readlines()\<close>: opening fails on
  what is not a regular file, decoding fails on a byte that is not valid UTF-8.
\<close>

definition read_lines :: "fs \<Rightarrow> string \<Rightarrow> exn + string list" where
  "read_lines fs path =
     (case lookup fs path of
        Some (Text t) \<Rightarrow> if encodable t then Inr (readlines t) else Inl UnicodeError
      | _ \<Rightarrow> Inl OSError)"

text \<open>
  The block \<^verbatim>\<open>with open(path, 'w', encoding='utf-8') as f: f.writelines(lines)\<close> and the
  \<^verbatim>\<open>return True\<close> that follows it in every rule.  Opening truncates the file.
  \<^verbatim>\<open>writelines\<close> encodes line after line; at the first line that cannot be encoded it
  raises, and leaving the block closes the file with the lines before that one.
\<close>

definition write_lines :: "fs \<Rightarrow> string \<Rightarrow> string list \<Rightarrow> (exn + bool) \<times> fs" where
  "write_lines fs path lines =
     (if list_all encodable lines
      then (Inr True, fs(norm_path path \<mapsto> Text (writelines lines)))
      else (Inl UnicodeError,
            fs(norm_path path \<mapsto> Text (writelines (takeWhile encodable lines)))))"

abbreviation SQ :: char where "SQ \<equiv> CHR 0x27"
abbreviation DQ :: char where "DQ \<equiv> CHR 0x22"
abbreviation BSL :: char where "BSL \<equiv> CHR 0x5C"
abbreviation TAB :: char where "TAB \<equiv> CHR 0x09"

definition indent_of :: "string \<Rightarrow> nat" where
  "indent_of line = length line - length (lstrip line)"

section \<open>The fix engine (\<^verbatim>\<open>fixer.py\<close>)\<close>

subsection \<open>Syntax rules\<close>

text \<open>
  The helpers of \<^verbatim>\<open>_fix_syntax\<close> receive the list of lines, a line number already checked
  to lie in \<^verbatim>\<open>1 .. len(lines)\<close>, and the text of that line.  They mutate the list and
  return a flag; the model returns the flag and the list.
\<close>

definition colon_keywords :: "string list" where
  "colon_keywords = [''def '', ''class '', ''if '', ''for '', ''while '', ''elif '', ''else'',
               ''try:'', ''except'', ''finally'', ''with '']"

definition fix_missing_colon :: "string list \<Rightarrow> int \<Rightarrow> string \<Rightarrow> bool \<times> string list" where
  "fix_missing_colon lines line_num line =
     (if list_ex (\<lambda>kw. contains kw line) colon_keywords then
        (let code_part = (if contains ''#'' line then rstrip (split1 ''#'' line ! 0)
                          else rstrip line);
             comment_part = (if contains ''#'' line then '' #'' @ split1 ''#'' line ! 1
                             else [])
         in if \<not> endswith code_part '':'' \<and> \<not> endswith code_part [BSL]
            then (True, lines[nat (line_num - 1) := code_part @ '':'' @ comment_part @ [NL]])
            else (False, lines))
      else (False, lines))"

text \<open>The pattern \<^verbatim>\<open>print\s+(["\'].*["\']|[^\n]+)$\<close>.\<close>

definition rx_print :: "item list" where
  "rx_print = lit ''print'' @
     [A (Greedy 1 isspace), A Open,
      Alt [One (\<lambda>c. c = DQ \<or> c = SQ), Greedy 0 dot, One (\<lambda>c. c = DQ \<or> c = SQ)]
          [Greedy 1 (\<lambda>c. c \<noteq> NL)],
      A Close, A Eol]"

definition fix_print_statement :: "string list \<Rightarrow> int \<Rightarrow> string \<Rightarrow> bool \<times> string list" where
  "fix_print_statement lines line_num line =
     (case re_search rx_print line of
        Some g \<Rightarrow>
          (let content = g ! 0;
               indent = indent_of line
           in (True, lines[nat (line_num - 1) :=
                 replicate indent CHR '' '' @ ''print('' @ content @ '')'' @ [NL]]))
      | None \<Rightarrow> (False, lines))"

text \<open>The pattern \<^verbatim>\<open>if\s+(\w+)\s*=\s*([^=])\<close>, replaced by \<^verbatim>\<open>if \1 == \2\<close>.\<close>

definition rx_comparison :: "item list" where
  "rx_comparison = lit ''if'' @
     [A (Greedy 1 isspace), A Open, A (Greedy 1 isword), A Close, A (Greedy 0 isspace),
      A (One (\<lambda>c. c = CHR ''='')), A (Greedy 0 isspace),
      A Open, A (One (\<lambda>c. c \<noteq> CHR ''='')), A Close]"

definition fix_comparison_operator :: "string list \<Rightarrow> int \<Rightarrow> string \<Rightarrow> bool \<times> string list" where
  "fix_comparison_operator lines line_num line =
     (if contains ''if '' line then
        (let fixed_line = re_sub rx_comparison (\<lambda>g. ''if '' @ g ! 0 @ '' == '' @ g ! 1) None line
         in if fixed_line \<noteq> line then (True, lines[nat (line_num - 1) := fixed_line])
            else (False, lines))
      else (False, lines))"

definition fix_missing_comma :: "string list \<Rightarrow> int \<Rightarrow> string \<Rightarrow> bool \<times> string list" where
  "fix_missing_comma lines line_num line = (False, lines)"

definition fix_unclosed_string :: "string list \<Rightarrow> int \<Rightarrow> string \<Rightarrow> bool \<times> string list" where
  "fix_unclosed_string lines line_num line =
     (let stripped = rstrip line;
          single_quotes = int (count_sub [SQ] stripped) - int (count_sub [BSL, SQ] stripped);
          double_quotes = int (count_sub [DQ] stripped) - int (count_sub [BSL, DQ] stripped)
      in if single_quotes mod 2 = 1 \<and> \<not> endswith stripped [SQ]
         then (True, lines[nat (line_num - 1) := rstrip line @ [SQ, NL]])
         else if double_quotes mod 2 = 1 \<and> \<not> endswith stripped [DQ]
         then (True, lines[nat (line_num - 1) := rstrip line @ [DQ, NL]])
         else (False, lines))"

definition fix_empty_block :: "string list \<Rightarrow> int \<Rightarrow> string \<Rightarrow> bool \<times> string list" where
  "fix_empty_block lines line_num line =
     (if line_num > 1 then
        (let prev_line = lines ! nat (line_num - 2)
         in if endswith (rstrip prev_line) '':'' then
              (let prev_indent = indent_of prev_line;
                   indent = prev_indent + 4
               in (True, lines[nat (line_num - 1) := replicate indent CHR '' '' @ ''pass'' @ [NL]]))
            else (False, lines))
      else (False, lines))"

definition fix_quote_mismatch :: "string list \<Rightarrow> int \<Rightarrow> string \<Rightarrow> bool \<times> string list" where
  "fix_quote_mismatch lines line_num line = (False, lines)"

text \<open>
  \<^verbatim>\<open>_fix_syntax\<close>.  The rules form one \<^verbatim>\<open>if/elif\<close> chain on the message and the line, so
  only the first rule whose condition holds is tried; when that leaves \<open>fixed\<close> false
  the missing-colon rule is tried (again).  The file is written only when \<open>fixed\<close>.
\<close>

definition fix_syntax :: "string \<Rightarrow> ErrorInfo \<Rightarrow> fs \<Rightarrow> (exn + bool) \<times> fs" where
  "fix_syntax repo_path error fs =
     (let file_path = path_join repo_path (ei_file error) in
      if lookup fs file_path = None then (Inr False, fs)
      else case read_lines fs file_path of
        Inl e \<Rightarrow> (Inl e, fs)
      | Inr lines \<Rightarrow>
          if ei_line error > int (length lines) \<or> ei_line error < 1 then (Inr False, fs)
          else
            (let line_num = ei_line error;
                 message = ei_message error;
                 line = lines ! nat (line_num - 1);
                 (fixed, lines) =
                   (if contains (''expected '' @ [SQ] @ '':'' @ [SQ]) message
                       \<or> contains (''expected '' @ [DQ] @ '':'' @ [DQ]) message
                    then fix_missing_colon lines line_num line
                    else if contains (''Missing parentheses in call to '' @ [SQ] @ ''print'' @ [SQ]) message
                    then fix_print_statement lines line_num line
                    else if contains ''invalid syntax'' (lower message) \<and> contains ''='' line
                            \<and> contains ''if '' line
                    then fix_comparison_operator lines line_num line
                    else if contains ''invalid syntax'' (lower message)
                            \<and> list_ex (\<lambda>c. contains c line) [''['', ''{'', ''('']
                    then fix_missing_comma lines line_num line
                    else if contains ''EOL while scanning string literal'' message
                            \<or> contains ''unterminated string'' (lower message)
                    then fix_unclosed_string lines line_num line
                    else if contains ''expected an indented block'' message
                    then fix_empty_block lines line_num line
                    else if contains ''invalid syntax'' (lower message)
                            \<and> (contains [DQ] line \<or> contains [SQ] line)
                    then fix_quote_mismatch lines line_num line
                    else (False, lines));
                 (fixed, lines) =
                   (if \<not> fixed then fix_missing_colon lines line_num line else (fixed, lines))
             in if fixed then write_lines fs file_path lines
                else (Inr False, fs)))"

subsection \<open>Indentation rule\<close>

definition fix_indentation :: "string \<Rightarrow> ErrorInfo \<Rightarrow> fs \<Rightarrow> (exn + bool) \<times> fs" where
  "fix_indentation repo_path error fs =
     (let file_path = path_join repo_path (ei_file error) in
      if lookup fs file_path = None then (Inr False, fs)
      else case read_lines fs file_path of
        Inl e \<Rightarrow> (Inl e, fs)
      | Inr lines \<Rightarrow>
          if ei_line error > int (length lines) \<or> ei_line error < 1 then (Inr False, fs)
          else
            (let k = nat (ei_line error - 1);
                 (fixed, lines) =
                   (if contains [TAB] (lines ! k)
                    then (True, lines[k := replace [TAB] ''    '' (lines ! k)])
                    else (False, lines));
                 current_line = lines ! k;
                 current_stripped = lstrip current_line;
                 (fixed, lines) =
                   (if ei_line error > 1 \<and> current_stripped \<noteq> [] then
                      (let prev_line = lines ! nat (ei_line error - 2);
                           prev_stripped = lstrip prev_line;
                           prev_indent = length prev_line - length prev_stripped;
                           current_indent = length current_line - length current_stripped
                       in if endswith (rstrip prev_stripped) '':'' then
                            (let expected_indent = prev_indent + 4
                             in if current_indent \<noteq> expected_indent
                                then (True, lines[k := replicate expected_indent CHR '' '' @ current_stripped])
                                else (fixed, lines))
                          else if current_indent < prev_indent
                          then (True, lines[k := replicate prev_indent CHR '' '' @ current_stripped])
                          else (fixed, lines))
                    else (fixed, lines))
             in if fixed then write_lines fs file_path lines
                else (Inr False, fs)))"

subsection \<open>Type-error rules\<close>

text \<open>The pattern \<^verbatim>\<open>name '(\w+)' is not defined\<close>.\<close>

definition rx_name_word :: "item list" where
  "rx_name_word = lit (''name '' @ [SQ]) @ [A Open, A (Greedy 1 isword), A Close]
     @ lit ([SQ] @ '' is not defined'')"

text \<open>
  \<^verbatim>\<open>_extract_undefined_name\<close>.  When the message does not name the identifier, the
  function iterates over a Python \<^verbatim>\<open>set\<close> of eight names and returns the first one that
  the file uses without importing it.  The iteration order of a set of strings is not
  fixed by the language, so it is the parameter \<open>order\<close>.
\<close>

definition typing_name_used :: "string \<Rightarrow> string \<Rightarrow> bool" where
  "typing_name_used name content =
     ((re_search ([A WordB] @ lit name @ lit ''['') content \<noteq> None
         \<or> re_search (lit '': '' @ lit name @ [A WordB]) content \<noteq> None)
      \<and> (\<not> contains ''from typing import'' content
           \<or> \<not> contains name (split [NL] (split ''from typing import'' content ! 1) ! 0)))"

definition extract_undefined_name :: "string list \<Rightarrow> string \<Rightarrow> string \<Rightarrow> string option" where
  "extract_undefined_name order message content =
     (case re_search rx_name_word message of
        Some g \<Rightarrow> Some (g ! 0)
      | None \<Rightarrow> find (\<lambda>name. typing_name_used name content) order)"

text \<open>
  The loop of \<^verbatim>\<open>_add_typing_import\<close> over the numbered lines: \<open>Inl ()\<close> when it returns
  False (the name is already imported), otherwise the index of the first
  \<^verbatim>\<open>from typing import\<close> line (or \<open>-1\<close>) and the index of the last import line seen
  before it (or \<open>-1\<close>).
\<close>

fun scan_imports :: "string \<Rightarrow> nat \<Rightarrow> string list \<Rightarrow> int \<Rightarrow> unit + (int \<times> int)" where
  "scan_imports type_name i [] last_import = Inr (- 1, last_import)"
| "scan_imports type_name i (line # rest) last_import =
     (if startswith line ''from typing import'' then
        (if re_search ([A WordB] @ lit type_name @ [A WordB]) line \<noteq> None then Inl ()
         else Inr (int i, last_import))
      else if startswith line ''import '' \<or> startswith line ''from ''
      then scan_imports type_name (Suc i) rest (int i)
      else scan_imports type_name (Suc i) rest last_import)"

definition add_typing_import :: "string list \<Rightarrow> string \<Rightarrow> string \<Rightarrow> fs \<Rightarrow> (exn + bool) \<times> fs" where
  "add_typing_import lines type_name file_path fs =
     (case scan_imports type_name 0 lines (- 1) of
        Inl u \<Rightarrow> (Inr False, fs)
      | Inr (import_line, last_import) \<Rightarrow>
          (let lines =
                 (if import_line \<ge> 0
                  then lines[nat import_line :=
                         rstrip_chars '','' (rstrip (lines ! nat import_line)) @ '', '' @ type_name @ [NL]]
                  else py_insert lines (if last_import \<ge> 0 then last_import + 1 else 0)
                         (''from typing import '' @ type_name @ [NL]))
           in write_lines fs file_path lines))"

text \<open>
  The patterns \<^verbatim>\<open>not '?(\w+)'?\<close> and \<^verbatim>\<open>(\+\s*)(\w+)(\s*\+|\s*$)\<close> of
  \<^verbatim>\<open>_fix_string_concatenation\<close>.
\<close>

definition rx_not_type :: "item list" where
  "rx_not_type = lit ''not '' @
     [A (Opt (\<lambda>c. c = SQ)), A Open, A (Greedy 1 isword), A Close, A (Opt (\<lambda>c. c = SQ))]"

definition rx_plus_operand :: "item list" where
  "rx_plus_operand =
     [A Open, A (One (\<lambda>c. c = CHR ''+'')), A (Greedy 0 isspace), A Close,
      A Open, A (Greedy 1 isword), A Close,
      A Open, Alt [Greedy 0 isspace, One (\<lambda>c. c = CHR ''+'')] [Greedy 0 isspace, Eol], A Close]"

definition fix_string_concatenation ::
  "string list \<Rightarrow> int \<Rightarrow> string \<Rightarrow> string \<Rightarrow> fs \<Rightarrow> (exn + bool) \<times> fs" where
  "fix_string_concatenation lines line_num message file_path fs =
     (if line_num > int (length lines) then (Inr False, fs)
      else case py_get lines (line_num - 1) of
        Inl e \<Rightarrow> (Inl e, fs)
      | Inr line \<Rightarrow>
          (case re_search rx_not_type message of
             None \<Rightarrow> (Inr False, fs)
           | Some g \<Rightarrow>
               (let var_type = g ! 0 in
                if var_type \<in> set [''int'', ''float'', ''bool''] then
                  (let new_line = re_sub rx_plus_operand
                         (\<lambda>m. m ! 0 @ ''str('' @ m ! 1 @ '')'' @ m ! 2) (Some 1) line
                   in if new_line \<noteq> line then
                        (case py_set lines (line_num - 1) new_line of
                           Inl e \<Rightarrow> (Inl e, fs)
                         | Inr lines \<Rightarrow> write_lines fs file_path lines)
                      else (Inr False, fs))
                else (Inr False, fs))))"

definition fix_operand_type ::
  "string list \<Rightarrow> int \<Rightarrow> string \<Rightarrow> string \<Rightarrow> fs \<Rightarrow> (exn + bool) \<times> fs" where
  "fix_operand_type lines line_num message file_path fs = (Inr False, fs)"

definition typing_names :: "string list" where
  "typing_names = [''List'', ''Dict'', ''Optional'', ''Set'', ''Tuple'', ''Union'', ''Any'',
                   ''Callable'', ''Iterable'', ''Mapping'', ''Sequence'', ''TypeVar'', ''Generic'']"

text \<open>
  \<^verbatim>\<open>_fix_type_error\<close>.  \<open>go_on\<close> is the rest of the function after the first rule, which
  is reached whenever that rule does not return.
\<close>

definition fix_type_error :: "string list \<Rightarrow> string \<Rightarrow> ErrorInfo \<Rightarrow> fs \<Rightarrow> (exn + bool) \<times> fs" where
  "fix_type_error order repo_path error fs =
     (let file_path = path_join repo_path (ei_file error) in
      if lookup fs file_path = None then (Inr False, fs)
      else case read_lines fs file_path of
        Inl e \<Rightarrow> (Inl e, fs)
      | Inr lines \<Rightarrow>
          (let content = concat lines;
               message = ei_message error;
               go_on =
                 (if contains ''can only concatenate str'' message \<or> contains ''must be str, not'' message
                  then fix_string_concatenation lines (ei_line error) message file_path fs
                  else if contains ''missing'' (lower message)
                          \<and> contains ''required positional argument'' (lower message)
                  then (Inr False, fs)
                  else if contains ''unsupported operand type'' (lower message)
                  then fix_operand_type lines (ei_line error) message file_path fs
                  else (Inr False, fs))
           in if contains ''is not defined'' message then
                (case extract_undefined_name order message content of
                   None \<Rightarrow> go_on
                 | Some undefined_name \<Rightarrow>
                     if undefined_name \<noteq> [] \<and> undefined_name \<in> set typing_names
                     then add_typing_import lines undefined_name file_path fs
                     else go_on)
              else go_on))"

subsection \<open>Import rules\<close>

text \<open>
  The patterns \<^verbatim>\<open>No module named '(.*?)'\<close> and \<^verbatim>\<open>cannot import name '(.*?)'\<close>, the
  second with \<^verbatim>\<open>re.IGNORECASE\<close>.
\<close>

definition rx_no_module :: "item list" where
  "rx_no_module = lit (''No module named '' @ [SQ]) @ [A Open, A (Lazy dot), A Close] @ lit [SQ]"

definition rx_cannot_import :: "item list" where
  "rx_cannot_import =
     lit_i (''cannot import name '' @ [SQ]) @ [A Open, A (Lazy dot), A Close] @ lit_i [SQ]"

text \<open>
  The loop of \<^verbatim>\<open>_comment_out_import\<close>: the first line that mentions the module in an
  import and is not a comment is prefixed with \<^verbatim>\<open># \<close>.  \<open>pre\<close> holds the lines
  already passed, in reverse.
\<close>

fun comment_out_scan :: "string \<Rightarrow> string list \<Rightarrow> string list \<Rightarrow> string list option" where
  "comment_out_scan module_name pre [] = None"
| "comment_out_scan module_name pre (line # rest) =
     (if (contains (''import '' @ module_name) line \<or> contains (''from '' @ module_name) line)
         \<and> \<not> startswith (strip line) ''#''
      then Some (rev pre @ (''# '' @ line) # rest)
      else comment_out_scan module_name (line # pre) rest)"

definition comment_out_import :: "string list \<Rightarrow> string \<Rightarrow> string \<Rightarrow> fs \<Rightarrow> (exn + bool) \<times> fs" where
  "comment_out_import lines module_name file_path fs =
     (case comment_out_scan module_name [] lines of
        Some lines \<Rightarrow> write_lines fs file_path lines
      | None \<Rightarrow> (Inr False, fs))"

text \<open>
  \<^verbatim>\<open>_remove_from_import\<close>.  The rewritten line keeps the entries of the import list whose
  text does not contain \<open>import_name\<close>.
\<close>

definition rewrite_import_line :: "string \<Rightarrow> string \<Rightarrow> string" where
  "rewrite_import_line import_name line =
     (let parts = split ''import'' line;
          before = parts ! 0;
          imports = parts ! 1;
          import_list = map strip (split '','' imports);
          import_list = filter (\<lambda>imp. \<not> contains import_name imp) import_list
      in if import_list \<noteq> [] then before @ ''import '' @ join '', '' import_list @ [NL]
         else ''# '' @ line)"

fun remove_from_import_scan :: "string \<Rightarrow> string list \<Rightarrow> string list \<Rightarrow> string list option" where
  "remove_from_import_scan import_name pre [] = None"
| "remove_from_import_scan import_name pre (line # rest) =
     (if contains ''from '' line \<and> contains import_name line
         \<and> length (split ''import'' line) = 2
      then Some (rev pre @ rewrite_import_line import_name line # rest)
      else remove_from_import_scan import_name (line # pre) rest)"

definition remove_from_import :: "string list \<Rightarrow> string \<Rightarrow> string \<Rightarrow> fs \<Rightarrow> (exn + bool) \<times> fs" where
  "remove_from_import lines import_name file_path fs =
     (case remove_from_import_scan import_name [] lines of
        Some lines \<Rightarrow> write_lines fs file_path lines
      | None \<Rightarrow> (Inr False, fs))"

definition fix_relative_import :: "string list \<Rightarrow> int \<Rightarrow> string \<Rightarrow> fs \<Rightarrow> (exn + bool) \<times> fs" where
  "fix_relative_import lines line_num file_path fs = (Inr False, fs)"

definition fix_import :: "string \<Rightarrow> ErrorInfo \<Rightarrow> fs \<Rightarrow> (exn + bool) \<times> fs" where
  "fix_import repo_path error fs =
     (let file_path = path_join repo_path (ei_file error) in
      if lookup fs file_path = None then (Inr False, fs)
      else case read_lines fs file_path of
        Inl e \<Rightarrow> (Inl e, fs)
      | Inr lines \<Rightarrow>
          (let message = ei_message error;
               relative =
                 (if contains ''attempted relative import'' (lower message)
                  then fix_relative_import lines (ei_line error) file_path fs
                  else (Inr False, fs))
           in case re_search rx_no_module message of
                Some g \<Rightarrow> comment_out_import lines (g ! 0) file_path fs
              | None \<Rightarrow>
                  if contains ''cannot import name'' (lower message) then
                    (case re_search rx_cannot_import message of
                       Some g \<Rightarrow> remove_from_import lines (g ! 0) file_path fs
                     | None \<Rightarrow> relative)
                  else relative))"

subsection \<open>Logic rules\<close>

text \<open>The pattern \<^verbatim>\<open>name '(.*?)' is not defined\<close>.\<close>

definition rx_name_any :: "item list" where
  "rx_name_any = lit (''name '' @ [SQ]) @ [A Open, A (Lazy dot), A Close]
     @ lit ([SQ] @ '' is not defined'')"

definition initialize_variable ::
  "string list \<Rightarrow> string \<Rightarrow> int \<Rightarrow> string \<Rightarrow> fs \<Rightarrow> (exn + bool) \<times> fs" where
  "initialize_variable lines var_name line_num file_path fs =
     (if line_num \<le> int (length lines) then
        (case py_get lines (line_num - 1) of
           Inl e \<Rightarrow> (Inl e, fs)
         | Inr current_line \<Rightarrow>
             (let indent = indent_of current_line;
                  init_line = replicate indent CHR '' '' @ var_name
                              @ '' = None  # AI-AGENT: Auto-initialized'' @ [NL];
                  lines = py_insert lines (line_num - 1) init_line
              in write_lines fs file_path lines))
      else (Inr False, fs))"

definition fix_attribute_error ::
  "string list \<Rightarrow> int \<Rightarrow> string \<Rightarrow> string \<Rightarrow> fs \<Rightarrow> (exn + bool) \<times> fs" where
  "fix_attribute_error lines line_num message file_path fs = (Inr False, fs)"

definition fix_logic :: "string \<Rightarrow> ErrorInfo \<Rightarrow> fs \<Rightarrow> (exn + bool) \<times> fs" where
  "fix_logic repo_path error fs =
     (let file_path = path_join repo_path (ei_file error) in
      if lookup fs file_path = None then (Inr False, fs)
      else case read_lines fs file_path of
        Inl e \<Rightarrow> (Inl e, fs)
      | Inr lines \<Rightarrow>
          (let message = ei_message error;
               go_on =
                 (if contains ''has no attribute'' (lower message)
                  then fix_attribute_error lines (ei_line error) message file_path fs
                  else if contains ''division by zero'' (lower message) then (Inr False, fs)
                  else if contains ''index out of range'' (lower message) then (Inr False, fs)
                  else (Inr False, fs))
           in if contains (''name '' @ [SQ] @ ''.*?'' @ [SQ] @ '' is not defined'') message
                 \<or> contains ''is not defined'' message
              then (case re_search rx_name_any message of
                      Some g \<Rightarrow> initialize_variable lines (g ! 0) (ei_line error) file_path fs
                    | None \<Rightarrow> go_on)
              else go_on))"

subsection \<open>Linting rules\<close>

definition remove_unused_import :: "string list \<Rightarrow> int \<Rightarrow> string \<Rightarrow> fs \<Rightarrow> (exn + bool) \<times> fs" where
  "remove_unused_import lines line_num file_path fs =
     (if line_num \<le> int (length lines) then
        (case py_get lines (line_num - 1) of
           Inl e \<Rightarrow> (Inl e, fs)
         | Inr line \<Rightarrow>
             if contains ''import'' (lower line) then
               (case py_del lines (line_num - 1) of
                  Inl e \<Rightarrow> (Inl e, fs)
                | Inr lines \<Rightarrow> write_lines fs file_path lines)
             else (Inr False, fs))
      else (Inr False, fs))"

definition remove_unused_variable :: "string list \<Rightarrow> int \<Rightarrow> string \<Rightarrow> fs \<Rightarrow> (exn + bool) \<times> fs" where
  "remove_unused_variable lines line_num file_path fs = (Inr False, fs)"

definition remove_trailing_whitespace ::
  "string list \<Rightarrow> int \<Rightarrow> string \<Rightarrow> fs \<Rightarrow> (exn + bool) \<times> fs" where
  "remove_trailing_whitespace lines line_num file_path fs =
     (if line_num \<le> int (length lines) then
        (case py_get lines (line_num - 1) of
           Inl e \<Rightarrow> (Inl e, fs)
         | Inr line \<Rightarrow>
             (case py_set lines (line_num - 1) (rstrip line @ [NL]) of
                Inl e \<Rightarrow> (Inl e, fs)
              | Inr lines \<Rightarrow> write_lines fs file_path lines))
      else (Inr False, fs))"

definition fix_linting :: "string \<Rightarrow> ErrorInfo \<Rightarrow> fs \<Rightarrow> (exn + bool) \<times> fs" where
  "fix_linting repo_path error fs =
     (let file_path = path_join repo_path (ei_file error) in
      if lookup fs file_path = None then (Inr False, fs)
      else case read_lines fs file_path of
        Inl e \<Rightarrow> (Inl e, fs)
      | Inr lines \<Rightarrow>
          (let message = ei_message error in
           if contains ''unused import'' (lower message)
              \<or> contains ''imported but unused'' (lower message)
           then remove_unused_import lines (ei_line error) file_path fs
           else if contains ''unused variable'' (lower message)
           then remove_unused_variable lines (ei_line error) file_path fs
           else if contains ''trailing whitespace'' (lower message)
           then remove_trailing_whitespace lines (ei_line error) file_path fs
           else (Inr False, fs)))"

subsection \<open>Dispatch\<close>

text \<open>
  \<^verbatim>\<open>apply_fix\<close>: dispatch on the kind; an exception raised by a rule is caught and
  turned into False.  The file system is whatever the rule left behind.  The members of
  \<^verbatim>\<open>ErrorType\<close> are the six kinds, so the final \<^verbatim>\<open>else\<close> of the source has no case here.
\<close>

definition dispatch :: "string list \<Rightarrow> string \<Rightarrow> ErrorInfo \<Rightarrow> fs \<Rightarrow> (exn + bool) \<times> fs" where
  "dispatch order repo_path error fs =
     (case ei_type error of
        SYNTAX \<Rightarrow> fix_syntax repo_path error fs
      | INDENTATION \<Rightarrow> fix_indentation repo_path error fs
      | TYPE_ERROR \<Rightarrow> fix_type_error order repo_path error fs
      | IMPORT \<Rightarrow> fix_import repo_path error fs
      | LOGIC \<Rightarrow> fix_logic repo_path error fs
      | LINTING \<Rightarrow> fix_linting repo_path error fs)"

definition apply_fix :: "string list \<Rightarrow> string \<Rightarrow> ErrorInfo \<Rightarrow> fs \<Rightarrow> bool \<times> fs" where
  "apply_fix order repo_path error fs =
     (case dispatch order repo_path error fs of
        (Inr b, fs') \<Rightarrow> (b, fs')
      | (Inl e, fs') \<Rightarrow> (False, fs'))"

section \<open>The collaborators outside the sources\<close>

text \<open>
  The orchestrator and the git handler drive libraries and programs that are not part
  of the sources: the operating system, GitPython, subprocesses, the HTTP client, the
  error parser (\<^verbatim>\<open>app.parser\<close>), the event sink.  Each is a function on the state of the
  world.  A world has the files of the workspace, which the fix engine edits, and an
  external part that only the collaborators read and change.
\<close>

record 'x world =
  files :: fs
  ext :: 'x

text \<open>How a GitPython call ends: normally, with \<^verbatim>\<open>GitCommandError\<close>, or with another exception.\<close>

datatype git_outcome = GitOk | GitFails | GitRaises

text \<open>
  How a subprocess ends: it completes with its two output streams and a return code, it
  exceeds its timeout, or it cannot be run at all.
\<close>

datatype proc_outcome = Completed string string int | TimeoutExpired | ProcError

text \<open>
  A field of the JSON object that the sandbox answers with: absent, present but not a
  string, or a string.
\<close>

datatype jfield = Absent | NotAString | JStr string

record sandbox_reply =
  reply_stdout :: jfield
  reply_stderr :: jfield
  reply_timed_out :: bool

text \<open>
  How \<^verbatim>\<open>httpx.post\<close> ends: with an exception (connection failure, client timeout), or
  with a status code and, when the body is a JSON object, its fields.
\<close>

datatype http_outcome = HttpRaises | HttpResponse nat "sandbox_reply option"

record 'x sys =
  rmtree :: "string \<Rightarrow> 'x world \<Rightarrow> bool \<times> 'x world"
  clone_from :: "string \<Rightarrow> string \<Rightarrow> 'x world \<Rightarrow> bool \<times> 'x world"
  git_checkout_b :: "string \<Rightarrow> 'x world \<Rightarrow> git_outcome \<times> 'x world"
  git_checkout :: "string \<Rightarrow> 'x world \<Rightarrow> git_outcome \<times> 'x world"
  index_add :: "string \<Rightarrow> 'x world \<Rightarrow> git_outcome \<times> 'x world"
  index_commit :: "string \<Rightarrow> 'x world \<Rightarrow> git_outcome \<times> 'x world"
  remote_push :: "string \<Rightarrow> 'x world \<Rightarrow> git_outcome \<times> 'x world"
  time_now :: "'x world \<Rightarrow> int"
  venv_create :: "string \<Rightarrow> 'x world \<Rightarrow> bool \<times> 'x world"
  subprocess_run :: "string list \<Rightarrow> string \<Rightarrow> 'x world \<Rightarrow> proc_outcome \<times> 'x world"
  popen_communicate :: "string list \<Rightarrow> string \<Rightarrow> 'x world \<Rightarrow> proc_outcome \<times> 'x world"
  http_post :: "string \<Rightarrow> string option \<Rightarrow> string \<times> string option \<times> int \<Rightarrow> 'x world
                  \<Rightarrow> http_outcome \<times> 'x world"
  parse_errors :: "string \<Rightarrow> string \<Rightarrow> ErrorInfo list"
  send_progress :: "string \<Rightarrow> 'x world \<Rightarrow> 'x world"
  type_value :: "ErrorType \<Rightarrow> string"
  set_order :: "string list"
  save_json :: "AgentResponse \<Rightarrow> 'x world \<Rightarrow> 'x world"

text \<open>
  \<open>rmtree\<close>, \<open>clone_from\<close> and \<open>venv_create\<close> return False when the call raises.
  \<open>http_post url token payload\<close> sends the payload (repository, branch, timeout) with
  the \<^verbatim>\<open>X-Sandbox-Token\<close> header when a token is given.  \<open>parse_errors\<close> is the
  classifier, a pure function of the output and the repository path.  \<open>send_progress\<close>
  receives the status tag of an event; the text of the message is not modelled.
  \<open>type_value\<close> gives the string value of a member of \<^verbatim>\<open>ErrorType\<close>, \<open>set_order\<close> the
  iteration order of the set of names in \<^verbatim>\<open>_extract_undefined_name\<close>, and
  \<open>save_json\<close> the effect of writing the report, whose failure the code absorbs.
\<close>

definition path_exists :: "'x world \<Rightarrow> string \<Rightarrow> bool" where
  "path_exists w p = (lookup (files w) p \<noteq> None)"

text \<open>\<^verbatim>\<open>str(n)\<close> for an integer, and \<^verbatim>\<open>os.path.basename\<close>.\<close>

fun str_nat :: "nat \<Rightarrow> string" where
  "str_nat n = (if n < 10 then [char_of (48 + n)]
                else str_nat (n div 10) @ [char_of (48 + n mod 10)])"

declare str_nat.simps [simp del]

definition str_int :: "int \<Rightarrow> string" where
  "str_int i = (if i < 0 then ''-'' @ str_nat (nat (- i)) else str_nat (nat i))"

definition basename :: "string \<Rightarrow> string" where
  "basename p = last (split ''/'' p)"

section \<open>The git handler (\<^verbatim>\<open>git_utils.py\<close>)\<close>

text \<open>
  Exceptions that reach the orchestrator.  \<open>LibraryError\<close> stands for an exception
  raised inside a library call; \<open>Exception\<close> carries the text of an exception that the
  sources raise themselves.
\<close>

datatype error = ValueError | GitCommandError | LibraryError | Exception string

record GitHandler =
  workspace_dir :: string
  repo :: bool
  gh_repo_path :: "string option"

definition GitHandler_init :: "string \<Rightarrow> GitHandler" where
  "GitHandler_init dir = \<lparr> workspace_dir = dir, repo = False, gh_repo_path = None \<rparr>"

text \<open>The three attempts of \<^verbatim>\<open>clone_repo\<close> to remove a stale checkout.\<close>

fun remove_attempts :: "'x sys \<Rightarrow> string \<Rightarrow> nat list \<Rightarrow> 'x world \<Rightarrow> (error + unit) \<times> 'x world" where
  "remove_attempts c p [] w = (Inr (), w)"
| "remove_attempts c p (attempt # rest) w =
     (case rmtree c p w of
        (True, w') \<Rightarrow> (Inr (), w')
      | (False, w') \<Rightarrow>
          if attempt < 3 - 1 then remove_attempts c p rest w'
          else (Inl (Exception ''Failed to clean workspace directory''), w'))"

definition clone_repo ::
  "'x sys \<Rightarrow> GitHandler \<Rightarrow> string \<Rightarrow> 'x world \<Rightarrow> (error + string) \<times> GitHandler \<times> 'x world" where
  "clone_repo c gh url w =
     (let repo_name = replace ''.git'' [] (last (split ''/'' (rstrip_chars ''/'' url)));
          repo_path = path_join (workspace_dir gh) repo_name;
          (cleaned, w) =
             (if path_exists w repo_path then
                (case remove_attempts c repo_path [0..<3] w of
                   (Inl e, w') \<Rightarrow> (Inl e, w')
                 | (Inr u, w') \<Rightarrow>
                     if path_exists w' repo_path
                     then (Inl (Exception ''Directory still exists after deletion''), w')
                     else (Inr (), w'))
              else (Inr (), w))
      in case cleaned of
           Inl e \<Rightarrow> (Inl e, gh, w)
         | Inr u \<Rightarrow>
             (case clone_from c url repo_path w of
                (False, w') \<Rightarrow> (Inl LibraryError, gh, w')
              | (True, w') \<Rightarrow>
                  (Inr repo_path, gh\<lparr> repo := True, gh_repo_path := Some repo_path \<rparr>, w')))"

definition format_branch_name :: "string \<Rightarrow> string \<Rightarrow> string" where
  "format_branch_name tm ld =
     (let team_clean = upper (replace '' '' ''_'' (strip tm));
          leader_clean = upper (replace '' '' ''_'' (strip ld))
      in team_clean @ ''_'' @ leader_clean @ ''_AI_FIX'')"

definition create_branch ::
  "'x sys \<Rightarrow> GitHandler \<Rightarrow> string \<Rightarrow> string \<Rightarrow> 'x world \<Rightarrow> (error + string) \<times> 'x world" where
  "create_branch c gh tm ld w =
     (if \<not> repo gh then (Inl ValueError, w)
      else
        (let branch = format_branch_name tm ld in
         case git_checkout_b c branch w of
           (GitOk, w1) \<Rightarrow> (Inr branch, w1)
         | (GitRaises, w1) \<Rightarrow> (Inl LibraryError, w1)
         | (GitFails, w1) \<Rightarrow>
             (case git_checkout c branch w1 of
                (GitOk, w2) \<Rightarrow> (Inr branch, w2)
              | (GitRaises, w2) \<Rightarrow> (Inl LibraryError, w2)
              | (GitFails, w2) \<Rightarrow>
                  (let unique_branch = branch @ ''_'' @ str_int (time_now c w2) in
                   case git_checkout_b c unique_branch w2 of
                     (GitOk, w3) \<Rightarrow> (Inr unique_branch, w3)
                   | (GitFails, w3) \<Rightarrow> (Inl GitCommandError, w3)
                   | (GitRaises, w3) \<Rightarrow> (Inl LibraryError, w3)))))"

definition git_error :: "git_outcome \<Rightarrow> error" where
  "git_error out = (if out = GitFails then GitCommandError else LibraryError)"

definition commit_fix ::
  "'x sys \<Rightarrow> GitHandler \<Rightarrow> string \<Rightarrow> string \<Rightarrow> int \<Rightarrow> string \<Rightarrow> 'x world \<Rightarrow> (error + string) \<times> 'x world" where
  "commit_fix c gh file_path bug_type line message w =
     (if \<not> repo gh then (Inl ValueError, w)
      else case index_add c file_path w of
        (GitOk, w1) \<Rightarrow>
          (let file_name = basename file_path;
               commit_message = ''[AI-AGENT] Fixed '' @ bug_type @ '' error in '' @ file_name
                                @ '' line '' @ str_int line
           in case index_commit c commit_message w1 of
                (GitOk, w2) \<Rightarrow> (Inr commit_message, w2)
              | (out, w2) \<Rightarrow> (Inl (git_error out), w2))
      | (out, w1) \<Rightarrow> (Inl (git_error out), w1))"

text \<open>\<^verbatim>\<open>push_branch\<close> turns a \<^verbatim>\<open>GitCommandError\<close> into False and lets any other exception pass.\<close>

definition push_branch ::
  "'x sys \<Rightarrow> GitHandler \<Rightarrow> string \<Rightarrow> 'x world \<Rightarrow> (error + bool) \<times> 'x world" where
  "push_branch c gh branch w =
     (if \<not> repo gh then (Inl ValueError, w)
      else case remote_push c branch w of
        (GitOk, w') \<Rightarrow> (Inr True, w')
      | (GitFails, w') \<Rightarrow> (Inr False, w')
      | (GitRaises, w') \<Rightarrow> (Inl LibraryError, w'))"

text \<open>
  The process environment is a map from names to values; \<^verbatim>\<open>os.getenv(name, default)\<close>.
\<close>

definition getenv :: "(string \<rightharpoonup> string) \<Rightarrow> string \<Rightarrow> string \<Rightarrow> string" where
  "getenv env name dflt = (case env name of None \<Rightarrow> dflt | Some v \<Rightarrow> v)"

section \<open>The sandbox service (\<^verbatim>\<open>agent_server.py\<close>)\<close>

text \<open>
  The module reads its token once, when it is loaded:
  \<^verbatim>\<open>SANDBOX_TOKEN = os.getenv("SANDBOX_TOKEN", "").strip()\<close>.
\<close>

definition SANDBOX_TOKEN :: "(string \<rightharpoonup> string) \<Rightarrow> string" where
  "SANDBOX_TOKEN env = strip (getenv env ''SANDBOX_TOKEN'' [])"

text \<open>
  What a request handler can end with instead of an answer: an \<^verbatim>\<open>HTTPException\<close> with
  its status code, or an exception that nothing handles.
\<close>

datatype http_error = HTTPException nat | Unhandled

text \<open>\<^verbatim>\<open>_check_auth\<close>; the header is \<open>None\<close> when the request does not carry it.\<close>

definition check_auth :: "(string \<rightharpoonup> string) \<Rightarrow> string option \<Rightarrow> http_error + unit" where
  "check_auth env x_sandbox_token =
     (if SANDBOX_TOKEN env \<noteq> [] \<and> x_sandbox_token \<noteq> Some (SANDBOX_TOKEN env)
      then Inl (HTTPException 401) else Inr ())"

record RunTestsRequest =
  req_repo_url :: string
  req_branch :: "string option"
  req_timeout_sec :: int

record test_reply =
  tr_stdout :: string
  tr_stderr :: string
  tr_returncode :: int
  tr_timed_out :: bool
  tr_project_type :: string

text \<open>
  The machine the service runs on: \<open>run_cmd cmd cwd timeout\<close> is \<^verbatim>\<open>_run_cmd\<close>, that is
  \<^verbatim>\<open>subprocess.run\<close>; \<open>mkdtemp\<close> creates the temporary directory and \<open>cleanup\<close> removes
  it when the \<^verbatim>\<open>with\<close> block is left; \<open>host_exists\<close> is \<^verbatim>\<open>os.path.exists\<close>.
\<close>

record 'y host =
  run_cmd :: "string list \<Rightarrow> string \<Rightarrow> int \<Rightarrow> 'y \<Rightarrow> proc_outcome \<times> 'y"
  mkdtemp :: "'y \<Rightarrow> string \<times> 'y"
  cleanup :: "string \<Rightarrow> 'y \<Rightarrow> 'y"
  host_exists :: "'y \<Rightarrow> string \<Rightarrow> bool"

text \<open>
  The commands of the \<^verbatim>\<open>try\<close> block, run one after the other; the result is that of the
  last one.  A timeout of any of them leaves the block through
  \<^verbatim>\<open>except subprocess.TimeoutExpired\<close>; any other failure is not handled.
\<close>

fun run_all ::
  "'y host \<Rightarrow> string list list \<Rightarrow> string \<Rightarrow> int \<Rightarrow> proc_outcome \<Rightarrow> 'y \<Rightarrow> proc_outcome \<times> 'y" where
  "run_all h [] cwd t result y = (result, y)"
| "run_all h (cmd # cmds) cwd t result y =
     (case run_cmd h cmd cwd t y of
        (Completed out err rc, y') \<Rightarrow> run_all h cmds cwd t (Completed out err rc) y'
      | (TimeoutExpired, y') \<Rightarrow> (TimeoutExpired, y')
      | (ProcError, y') \<Rightarrow> (ProcError, y'))"

text \<open>The handler of \<^verbatim>\<open>POST /run-tests\<close>.\<close>

definition sandbox_run_tests ::
  "(string \<rightharpoonup> string) \<Rightarrow> 'y host \<Rightarrow> RunTestsRequest \<Rightarrow> string option \<Rightarrow> 'y
     \<Rightarrow> (http_error + test_reply) \<times> 'y" where
  "sandbox_run_tests env h req x_sandbox_token y =
     (case check_auth env x_sandbox_token of
        Inl e \<Rightarrow> (Inl e, y)
      | Inr u \<Rightarrow>
          (let (tmpdir, y) = mkdtemp h y;
               repo_path = path_join tmpdir ''repo'';
               clone_cmd = [''git'', ''clone'', ''--depth'', ''1'']
                 @ (case req_branch req of
                      Some b \<Rightarrow> if b \<noteq> [] then [''--branch'', b] else []
                    | None \<Rightarrow> [])
                 @ [req_repo_url req, repo_path]
           in case run_cmd h clone_cmd tmpdir 60 y of
                (TimeoutExpired, y1) \<Rightarrow>
                  (Inr \<lparr> tr_stdout = [], tr_stderr = ''git clone timed out'', tr_returncode = 1,
                         tr_timed_out = True, tr_project_type = ''unknown'' \<rparr>,
                   cleanup h tmpdir y1)
              | (ProcError, y1) \<Rightarrow> (Inl Unhandled, cleanup h tmpdir y1)
              | (Completed o1 e1 r1, y1) \<Rightarrow>
                  (let ptype =
                         (if host_exists h y1 (path_join repo_path ''package.json'') then ''javascript''
                          else if host_exists h y1 (path_join repo_path ''requirements.txt'')
                          then ''python'' else ''unknown'');
                       cmds =
                         (if ptype = ''javascript''
                          then [[''npm'', ''install''], [''npm'', ''test'', ''--'', ''--passWithNoTests'']]
                          else (if host_exists h y1 (path_join repo_path ''requirements.txt'')
                                then [[''python'', ''-m'', ''pip'', ''install'', ''-r'', ''requirements.txt'']]
                                else [])
                               @ [[''pytest'', ''--maxfail=10'', ''-v'', ''--tb=short'']])
                   in case run_all h cmds repo_path (req_timeout_sec req) ProcError y1 of
                        (Completed out err rc, y2) \<Rightarrow>
                          (Inr \<lparr> tr_stdout = out, tr_stderr = err, tr_returncode = rc,
                                 tr_timed_out = False, tr_project_type = ptype \<rparr>,
                           cleanup h tmpdir y2)
                      | (TimeoutExpired, y2) \<Rightarrow>
                          (Inr \<lparr> tr_stdout = [], tr_stderr = ''test execution timed out'',
                                 tr_returncode = 1, tr_timed_out = True,
                                 tr_project_type = ptype \<rparr>,
                           cleanup h tmpdir y2)
                      | (ProcError, y2) \<Rightarrow> (Inl Unhandled, cleanup h tmpdir y2))))"

text \<open>
  What the HTTP client of the orchestrator receives for an outcome of the handler: the
  status code of the exception (500 when nothing handled it) or status 200 with the
  answer as a JSON object.
\<close>

definition http_answer :: "http_error + test_reply \<Rightarrow> http_outcome" where
  "http_answer r =
     (case r of
        Inl (HTTPException code) \<Rightarrow> HttpResponse code None
      | Inl Unhandled \<Rightarrow> HttpResponse 500 None
      | Inr t \<Rightarrow> HttpResponse 200
          (Some \<lparr> reply_stdout = JStr (tr_stdout t), reply_stderr = JStr (tr_stderr t),
                  reply_timed_out = tr_timed_out t \<rparr>))"

section \<open>The orchestrator's own state (\<^verbatim>\<open>DockerRunner\<close>)\<close>

text \<open>
  The fields that \<^verbatim>\<open>DockerRunner.__init__\<close> sets up.  \<^verbatim>\<open>ws_manager\<close> and \<^verbatim>\<open>run_id\<close>
  only decide whether progress events are forwarded; \<open>has_sink\<close> is the truth value of
  \<^verbatim>\<open>self.ws_manager and self.run_id\<close>.  The fix engine has one field, the path of the
  repository, so \<open>fixer\<close> is that path once the engine exists.  The workspace directory
  and the environment are parameters of the constructor.
\<close>

record DockerRunner =
  repo_url :: string
  team :: string
  leader :: string
  max_retries :: int
  has_sink :: bool
  git_handler :: GitHandler
  fixer :: "string option"
  project_type :: "string option"
  test_command :: "string list option"
  venv_path :: "string option"
  venv_python :: "string option"
  self_fixes :: "FixResult list"
  total_failures :: nat
  iterations :: nat
  branch_name :: "string option"
  sandbox_url :: string
  sandbox_token :: string

text \<open>\<^verbatim>\<open>DockerRunner.__init__\<close>.\<close>

definition DockerRunner_init ::
  "(string \<rightharpoonup> string) \<Rightarrow> string \<Rightarrow> string \<Rightarrow> string \<Rightarrow> string \<Rightarrow> int \<Rightarrow> bool \<Rightarrow> DockerRunner" where
  "DockerRunner_init env dir url tm ld retries sink =
     \<lparr> repo_url = url, team = tm, leader = ld, max_retries = retries, has_sink = sink,
       git_handler = GitHandler_init dir, fixer = None,
       project_type = None, test_command = None, venv_path = None, venv_python = None,
       self_fixes = [], total_failures = 0, iterations = 0, branch_name = None,
       sandbox_url = strip (getenv env ''SANDBOX_URL'' []),
       sandbox_token = strip (getenv env ''SANDBOX_TOKEN'' []) \<rparr>"

text \<open>
  \<^verbatim>\<open>_generate_response\<close>: count the outcomes whose status is \<^verbatim>\<open>"Fixed"\<close>, choose
  PASSED or PARTIAL, then overwrite with FAILED when the count is zero.
\<close>

definition generate_response :: "DockerRunner \<Rightarrow> string \<Rightarrow> AgentResponse" where
  "generate_response self branch =
     (let successful_fixes = length (filter (\<lambda>fix. fr_status fix = ''Fixed'') (self_fixes self));
          status = (if successful_fixes > 0 \<and> successful_fixes = length (self_fixes self)
                    then ''PASSED'' else ''PARTIAL'');
          status = (if successful_fixes = 0 then ''FAILED'' else status)
      in \<lparr> ar_repo = repo_url self,
           ar_branch = branch,
           ar_total_failures = total_failures self,
           ar_total_fixes = successful_fixes,
           ar_iterations = iterations self,
           ar_status = status,
           ar_fixes = self_fixes self \<rparr>)"

section \<open>The orchestrator (\<^verbatim>\<open>docker_runner.py\<close>)\<close>

text \<open>\<^verbatim>\<open>_emit_progress\<close>: forward the event when a sink is configured.\<close>

definition emit_progress :: "'x sys \<Rightarrow> DockerRunner \<Rightarrow> string \<Rightarrow> 'x world \<Rightarrow> 'x world" where
  "emit_progress c self status w = (if has_sink self then send_progress c status w else w)"

definition detect_project_type :: "DockerRunner \<Rightarrow> string \<Rightarrow> 'x world \<Rightarrow> DockerRunner" where
  "detect_project_type self repo_path w =
     (let package_json = path_join repo_path ''package.json'';
          requirements_txt = path_join repo_path ''requirements.txt''
      in if path_exists w package_json
         then self\<lparr> project_type := Some ''javascript'',
                    test_command := Some [''npm'', ''test'', ''--'', ''--passWithNoTests''] \<rparr>
         else if path_exists w requirements_txt
         then self\<lparr> project_type := Some ''python'',
                    test_command := Some [''pytest'', ''--maxfail=10'', ''-v''] \<rparr>
         else self\<lparr> project_type := Some ''unknown'',
                    test_command := Some [''pytest'', ''--maxfail=10'', ''-v''] \<rparr>)"

text \<open>\<^verbatim>\<open>_create_venv\<close>, on a platform other than Windows.\<close>

definition create_venv ::
  "'x sys \<Rightarrow> DockerRunner \<Rightarrow> string \<Rightarrow> 'x world \<Rightarrow> DockerRunner \<times> 'x world" where
  "create_venv c self repo_path w =
     (let vpath = path_join repo_path ''.venv'';
          self = self\<lparr> venv_path := Some vpath \<rparr>;
          (created, w) = (if path_exists w vpath then (True, w) else venv_create c vpath w)
      in if \<not> created then (self\<lparr> venv_path := None, venv_python := None \<rparr>, w)
         else (self\<lparr> venv_python := Some (path_join (path_join vpath ''bin'') ''python'') \<rparr>, w))"

text \<open>
  \<^verbatim>\<open>_install_dependencies\<close>: whatever the installer does, including a timeout or a
  failure to start, only the world changes.
\<close>

definition install_dependencies :: "'x sys \<Rightarrow> DockerRunner \<Rightarrow> string \<Rightarrow> 'x world \<Rightarrow> 'x world" where
  "install_dependencies c self repo_path w =
     (if project_type self = Some ''javascript'' then
        (if path_exists w (path_join repo_path ''package.json'')
         then snd (subprocess_run c [''npm install''] repo_path w)
         else w)
      else if project_type self = Some ''python'' then
        (if path_exists w (path_join repo_path ''requirements.txt'')
         then (let pip_cmd = (case venv_python self of
                                Some py \<Rightarrow> [py, ''-m'', ''pip'']
                              | None \<Rightarrow> [''pip''])
               in snd (subprocess_run c (pip_cmd @ [''install'', ''-r'', ''requirements.txt''])
                         repo_path w))
         else w)
      else w)"

text \<open>
  The value of \<^verbatim>\<open>stdout + "\n" + stderr\<close> for two fields of the sandbox's answer;
  \<open>None\<close> when the concatenation raises because a field is not a string.
\<close>

definition field_text :: "jfield \<Rightarrow> string option" where
  "field_text f = (case f of Absent \<Rightarrow> Some [] | JStr s \<Rightarrow> Some s | NotAString \<Rightarrow> None)"

definition combined_output :: "jfield \<Rightarrow> jfield \<Rightarrow> string option" where
  "combined_output out err =
     (case (field_text out, field_text err) of
        (Some a, Some b) \<Rightarrow> Some (a @ [NL] @ b)
      | _ \<Rightarrow> None)"

text \<open>
  \<^verbatim>\<open>_run_tests\<close>.  The first statement joins \<^verbatim>\<open>self.test_command\<close>, which raises while
  the command is still \<^verbatim>\<open>None\<close>.  In sandbox mode the whole exchange is inside one
  \<^verbatim>\<open>try\<close>: \<^verbatim>\<open>raise_for_status\<close> raises for every status outside 200 to 299.  In local
  mode the periodic progress events of the helper thread are not modelled.
\<close>

text \<open>
  The request that \<^verbatim>\<open>_run_tests\<close> sends in sandbox mode: the address, the token header
  (left out when the token is empty) and the payload.
\<close>

definition sandbox_request :: "DockerRunner \<Rightarrow> string \<times> string option \<times> (string \<times> string option \<times> int)" where
  "sandbox_request self =
     (rstrip_chars ''/'' (sandbox_url self) @ ''/run-tests'',
      if sandbox_token self \<noteq> [] then Some (sandbox_token self) else None,
      (repo_url self, branch_name self, 120))"

text \<open>The command that \<^verbatim>\<open>_run_tests\<close> starts in local mode.\<close>

definition local_test_cmd :: "DockerRunner \<Rightarrow> string list \<Rightarrow> string list" where
  "local_test_cmd self tc =
     (if project_type self = Some ''python'' then
        [case venv_python self of Some py \<Rightarrow> py | None \<Rightarrow> ''python'',
         ''-m'', ''pytest'', ''--maxfail=10'', ''-v'', ''--tb=short'']
      else if project_type self = Some ''javascript'' then [join '' '' tc]
      else tc)"

definition run_tests ::
  "'x sys \<Rightarrow> DockerRunner \<Rightarrow> string \<Rightarrow> 'x world \<Rightarrow> (error + string) \<times> 'x world" where
  "run_tests c self repo_path w =
     (case test_command self of
        None \<Rightarrow> (Inl LibraryError, w)
      | Some tc \<Rightarrow>
          if sandbox_url self \<noteq> [] then
            (let (url, token, payload) = sandbox_request self
             in case http_post c url token payload w of
                  (HttpRaises, w1) \<Rightarrow> (Inr [], emit_progress c self ''error'' w1)
                | (HttpResponse code body, w1) \<Rightarrow>
                    if \<not> (200 \<le> code \<and> code < 300) then (Inr [], emit_progress c self ''error'' w1)
                    else (case body of
                            None \<Rightarrow> (Inr [], emit_progress c self ''error'' w1)
                          | Some data \<Rightarrow>
                              (let w2 = (if reply_timed_out data
                                         then emit_progress c self ''warning'' w1 else w1)
                               in case combined_output (reply_stdout data) (reply_stderr data) of
                                    Some text \<Rightarrow> (Inr text, w2)
                                  | None \<Rightarrow> (Inr [], emit_progress c self ''error'' w2))))
          else
            (case popen_communicate c (local_test_cmd self tc) repo_path w of
               (Completed out err returncode, w1) \<Rightarrow>
                 (Inr (out @ [NL] @ err),
                  emit_progress c self (if returncode = 0 then ''success'' else ''info'') w1)
             | (TimeoutExpired, w1) \<Rightarrow> (Inr [], emit_progress c self ''warning'' w1)
             | (ProcError, w1) \<Rightarrow> (Inr [], emit_progress c self ''error'' w1)))"

text \<open>
  The outcomes of the HTTP call on which \<^verbatim>\<open>_run_tests\<close> leaves its \<^verbatim>\<open>try\<close> block through
  \<^verbatim>\<open>except Exception\<close>: \<^verbatim>\<open>httpx.post\<close> raises, \<^verbatim>\<open>raise_for_status\<close> raises, the body is no
  JSON object, or concatenating the two fields raises.
\<close>

definition remote_call_fails :: "http_outcome \<Rightarrow> bool" where
  "remote_call_fails r =
     (case r of
        HttpRaises \<Rightarrow> True
      | HttpResponse code body \<Rightarrow>
          \<not> (200 \<le> code \<and> code < 300)
          \<or> (case body of
                None \<Rightarrow> True
              | Some data \<Rightarrow> combined_output (reply_stdout data) (reply_stderr data) = None))"

text \<open>
  \<^verbatim>\<open>_apply_and_commit_fix\<close>.  When the edit succeeds the commit is attempted; a commit
  that raises makes the function return False from the \<^verbatim>\<open>except\<close> branch.  An outcome is
  appended to \<^verbatim>\<open>self.fixes\<close> after a successful commit and after a failed edit.
\<close>

definition apply_and_commit_fix ::
  "'x sys \<Rightarrow> ErrorInfo \<Rightarrow> DockerRunner \<Rightarrow> 'x world \<Rightarrow> (error + bool) \<times> DockerRunner \<times> 'x world" where
  "apply_and_commit_fix c error self w =
     (let w = emit_progress c self ''fixing'' w in
      case fixer self of
        None \<Rightarrow> (Inl LibraryError, self, w)
      | Some repo_path \<Rightarrow>
          (let (success, fs') = apply_fix (set_order c) repo_path error (files w);
               w = w\<lparr> files := fs' \<rparr>
           in if success then
                (case commit_fix c (git_handler self) (ei_file error) (type_value c (ei_type error))
                        (ei_line error) (ei_message error) w of
                   (Inr commit_message, w1) \<Rightarrow>
                     (Inr True,
                      self\<lparr> self_fixes := self_fixes self @
                              [\<lparr> fr_file = ei_file error, fr_line = ei_line error,
                                 fr_type = type_value c (ei_type error),
                                 fr_commit_message = commit_message,
                                 fr_status = ''Fixed'' \<rparr>] \<rparr>,
                      emit_progress c self ''success'' w1)
                 | (Inl e, w1) \<Rightarrow> (Inr False, self, w1))
              else
                (Inr False,
                 self\<lparr> self_fixes := self_fixes self @
                         [\<lparr> fr_file = ei_file error, fr_line = ei_line error,
                            fr_type = type_value c (ei_type error),
                            fr_commit_message = [],
                            fr_status = ''Failed'' \<rparr>] \<rparr>,
                 w)))"

text \<open>The inner loop \<^verbatim>\<open>for error in errors\<close>, counting the fixes that succeeded.\<close>

fun apply_fixes ::
  "'x sys \<Rightarrow> ErrorInfo list \<Rightarrow> nat \<Rightarrow> DockerRunner \<Rightarrow> 'x world
     \<Rightarrow> (error + nat) \<times> DockerRunner \<times> 'x world" where
  "apply_fixes c [] fixed_count self w = (Inr fixed_count, self, w)"
| "apply_fixes c (e # es) fixed_count self w =
     (case apply_and_commit_fix c e self w of
        (Inl x, self', w') \<Rightarrow> (Inl x, self', w')
      | (Inr b, self', w') \<Rightarrow>
          apply_fixes c es (if b then fixed_count + 1 else fixed_count) self' w')"

text \<open>
  The first half of the body of \<^verbatim>\<open>for iteration in range(self.max_retries)\<close>: count
  the iteration, push in sandbox mode, run the tests and classify their output.
\<close>

definition test_and_classify ::
  "'x sys \<Rightarrow> string \<Rightarrow> string \<Rightarrow> nat \<Rightarrow> DockerRunner \<Rightarrow> 'x world
     \<Rightarrow> (error + ErrorInfo list) \<times> DockerRunner \<times> 'x world" where
  "test_and_classify c repo_path branch iteration self w =
     (let self = self\<lparr> iterations := iteration + 1 \<rparr>;
          w = emit_progress c self ''testing'' w;
          (pushed, w) = (if sandbox_url self \<noteq> [] then push_branch c (git_handler self) branch w
                         else (Inr True, w))
      in case pushed of
           Inl e \<Rightarrow> (Inl e, self, w)
         | Inr False \<Rightarrow>
             (Inl (Exception ''Failed to push branch updates for sandbox''), self,
              emit_progress c self ''error'' w)
         | Inr True \<Rightarrow>
             (case run_tests c self repo_path w of
                (Inl e, w1) \<Rightarrow> (Inl e, self, w1)
              | (Inr test_output, w1) \<Rightarrow> (Inr (parse_errors c test_output repo_path), self, w1)))"

text \<open>
  One pass through the whole body.  It ends with an exception, with \<^verbatim>\<open>break\<close>, or by
  reaching the end of the body.
\<close>

datatype flow = Continue | Break

definition loop_body ::
  "'x sys \<Rightarrow> string \<Rightarrow> string \<Rightarrow> nat \<Rightarrow> DockerRunner \<Rightarrow> 'x world
     \<Rightarrow> (error + flow) \<times> DockerRunner \<times> 'x world" where
  "loop_body c repo_path branch iteration self w =
     (case test_and_classify c repo_path branch iteration self w of
        (Inl e, self, w1) \<Rightarrow> (Inl e, self, w1)
      | (Inr errors, self, w1) \<Rightarrow>
          if errors = [] then (Inr Break, self, emit_progress c self ''success'' w1)
          else
            (let self = self\<lparr> total_failures := length errors \<rparr>;
                 w2 = emit_progress c self ''fixing'' (emit_progress c self ''warning'' w1)
             in case apply_fixes c errors 0 self w2 of
                  (Inl e, self', w3) \<Rightarrow> (Inl e, self', w3)
                | (Inr fixed_count, self', w3) \<Rightarrow>
                    (let w4 = emit_progress c self' ''info'' w3 in
                     if fixed_count = 0
                     then (Inr Break, self', emit_progress c self' ''error'' w4)
                     else (Inr Continue, self', w4))))"

text \<open>The loop over the iteration numbers still to run.\<close>

fun fix_loop ::
  "'x sys \<Rightarrow> string \<Rightarrow> string \<Rightarrow> nat list \<Rightarrow> DockerRunner \<Rightarrow> 'x world
     \<Rightarrow> (error + unit) \<times> DockerRunner \<times> 'x world" where
  "fix_loop c repo_path branch [] self w = (Inr (), self, w)"
| "fix_loop c repo_path branch (iteration # rest) self w =
     (case loop_body c repo_path branch iteration self w of
        (Inl e, self', w') \<Rightarrow> (Inl e, self', w')
      | (Inr Break, self', w') \<Rightarrow> (Inr (), self', w')
      | (Inr Continue, self', w') \<Rightarrow> fix_loop c repo_path branch rest self' w')"

text \<open>
  Steps 1.5 to 2 of \<^verbatim>\<open>run\<close>: detect the project type and, in local mode only, create the
  virtual environment of a Python project and install the dependencies.  Nothing here
  can raise.
\<close>

definition prepare_environment ::
  "'x sys \<Rightarrow> DockerRunner \<Rightarrow> string \<Rightarrow> 'x world \<Rightarrow> DockerRunner \<times> 'x world" where
  "prepare_environment c self repo_path w =
     (let w = emit_progress c self ''analyzing'' w;
          self = detect_project_type self repo_path w;
          w = emit_progress c self ''info'' w;
          (self, w) =
            (if sandbox_url self = [] \<and> project_type self = Some ''python''
             then (let (self, w) = create_venv c self repo_path (emit_progress c self ''venv'' w)
                   in (self, emit_progress c self ''success'' w))
             else (self, w));
          w = (if sandbox_url self = []
               then emit_progress c self ''success''
                      (install_dependencies c self repo_path
                         (emit_progress c self ''installing'' w))
               else w)
      in (self, w))"

text \<open>
  Steps 1 to 3 of \<^verbatim>\<open>run\<close>: clone, prepare the environment and create the branch.  Only
  \<^verbatim>\<open>clone_repo\<close> and \<^verbatim>\<open>create_branch\<close> can raise here.
\<close>

definition run_prepare ::
  "'x sys \<Rightarrow> DockerRunner \<Rightarrow> 'x world \<Rightarrow> (error + string \<times> string) \<times> DockerRunner \<times> 'x world" where
  "run_prepare c self w =
     (let w = emit_progress c self ''cloning'' (emit_progress c self ''info'' w) in
      case clone_repo c (git_handler self) (repo_url self) w of
        (Inl e, gh, w) \<Rightarrow> (Inl e, self\<lparr> git_handler := gh \<rparr>, w)
      | (Inr repo_path, gh, w) \<Rightarrow>
          (let self = self\<lparr> git_handler := gh, fixer := Some repo_path \<rparr>;
               (self, w) = prepare_environment c self repo_path (emit_progress c self ''success'' w);
               w = emit_progress c self ''info'' w
           in case create_branch c (git_handler self) (team self) (leader self) w of
                (Inl e, w) \<Rightarrow> (Inl e, self, w)
              | (Inr branch, w) \<Rightarrow>
                  (let self = self\<lparr> branch_name := Some branch \<rparr>
                   in (Inr (repo_path, branch), self, emit_progress c self ''success'' w))))"

text \<open>In sandbox mode the new branch is pushed at once; a push that fails is raised.\<close>

definition first_push ::
  "'x sys \<Rightarrow> string \<Rightarrow> DockerRunner \<Rightarrow> 'x world \<Rightarrow> (error + unit) \<times> 'x world" where
  "first_push c branch self w =
     (if sandbox_url self \<noteq> [] then
        (case push_branch c (git_handler self) branch (emit_progress c self ''info'' w) of
           (Inl e, w) \<Rightarrow> (Inl e, w)
         | (Inr False, w) \<Rightarrow> (Inl (Exception ''Failed to push branch for sandbox access''), w)
         | (Inr True, w) \<Rightarrow> (Inr (), w))
      else (Inr (), w))"

text \<open>
  The part of \<^verbatim>\<open>run\<close> after the loop: the final push, inside a \<^verbatim>\<open>try\<close> that absorbs
  every exception, the report, and saving it.
\<close>

definition run_finish ::
  "'x sys \<Rightarrow> string \<Rightarrow> DockerRunner \<Rightarrow> 'x world \<Rightarrow> AgentResponse \<times> DockerRunner \<times> 'x world" where
  "run_finish c branch self w =
     (let w = (if length (self_fixes self) > 0 then
                 (case push_branch c (git_handler self) branch (emit_progress c self ''pushing'' w) of
                    (Inr b, w') \<Rightarrow> emit_progress c self ''success'' w'
                  | (Inl e, w') \<Rightarrow> emit_progress c self ''error'' w')
               else emit_progress c self ''warning'' w);
          w = emit_progress c self ''completing'' w;
          response = generate_response self branch;
          w = emit_progress c self ''completed'' w;
          w = save_json c response w
      in (response, self, w))"

text \<open>\<^verbatim>\<open>DockerRunner.run\<close>.\<close>

definition run ::
  "'x sys \<Rightarrow> DockerRunner \<Rightarrow> 'x world \<Rightarrow> (error + AgentResponse) \<times> DockerRunner \<times> 'x world" where
  "run c self w =
     (case run_prepare c self w of
        (Inl e, self, w) \<Rightarrow> (Inl e, self, w)
      | (Inr (repo_path, branch), self, w) \<Rightarrow>
          (case first_push c branch self w of
             (Inl e, w) \<Rightarrow> (Inl e, self, w)
           | (Inr u, w) \<Rightarrow>
               (case fix_loop c repo_path branch [0..<nat (max_retries self)] self w of
                  (Inl e, self, w) \<Rightarrow> (Inl e, self, w)
                | (Inr u, self, w) \<Rightarrow>
                    (case run_finish c branch self w of
                       (response, self, w) \<Rightarrow> (Inr response, self, w)))))"

section \<open>Example inputs\<close>

text \<open>An iteration order for the set of names in \<^verbatim>\<open>_extract_undefined_name\<close>.\<close>

definition demo_order :: "string list" where
  "demo_order = [''List'', ''Dict'', ''Optional'', ''Set'', ''Tuple'', ''Union'', ''Any'', ''Callable'']"

text \<open>A file that uses an undefined name, and the failure record for it.\<close>

definition logic_file :: fs where
  "logic_file = Map.empty(''/ws/repo/app.py'' \<mapsto> Text (''print(total)'' @ [NL]))"

definition logic_error :: ErrorInfo where
  "logic_error = \<lparr> ei_type = LOGIC, ei_file = ''app.py'', ei_line = 1,
      ei_message = ''NameError: name '' @ [SQ] @ ''total'' @ [SQ] @ '' is not defined'' \<rparr>"


text \<open>A logic failure for which the engine has no rule.\<close>

definition zero_division_error :: ErrorInfo where
  "zero_division_error = \<lparr> ei_type = LOGIC, ei_file = ''app.py'', ei_line = 1,
      ei_message = ''ZeroDivisionError: division by zero'' \<rparr>"

text \<open>
  A file that imports three names, one of which contains another, and the failure
  record for the shorter one.
\<close>

definition import_file :: fs where
  "import_file = Map.empty(''/ws/repo/app.py'' \<mapsto>
      Text (''from shapes import Square, SquareRoot, Circle'' @ [NL] @ ''x = 1'' @ [NL]))"

definition import_error :: ErrorInfo where
  "import_error = \<lparr> ei_type = IMPORT, ei_file = ''app.py'', ei_line = 1,
      ei_message = ''ImportError: cannot import name '' @ [SQ] @ ''Square'' @ [SQ]
                   @ '' from '' @ [SQ] @ ''shapes'' @ [SQ] \<rparr>"



text \<open>
  Collaborators that follow a script.  The external part of the world counts the test
  executions so far.  Cloning puts the given files into the workspace; every git call
  succeeds except committing and pushing, whose outcomes are given; the \<open>n\<close>-th test
  execution ends as \<open>tests n\<close> (local) or \<open>remote n\<close> (sandbox); \<open>classify\<close> is the
  parser.
\<close>

definition kind_name :: "ErrorType \<Rightarrow> string" where
  "kind_name t =
     (case t of SYNTAX \<Rightarrow> ''SYNTAX'' | INDENTATION \<Rightarrow> ''INDENTATION''
      | TYPE_ERROR \<Rightarrow> ''TYPE_ERROR'' | IMPORT \<Rightarrow> ''IMPORT'' | LOGIC \<Rightarrow> ''LOGIC''
      | LINTING \<Rightarrow> ''LINTING'')"

definition demo_sys ::
  "git_outcome \<Rightarrow> git_outcome \<Rightarrow> (nat \<Rightarrow> proc_outcome) \<Rightarrow> (nat \<Rightarrow> http_outcome)
     \<Rightarrow> (string \<Rightarrow> ErrorInfo list) \<Rightarrow> fs \<Rightarrow> nat sys" where
  "demo_sys commit_out push_out tests remote classify checkout =
     \<lparr> rmtree = (\<lambda>p w. (True, w)),
       clone_from = (\<lambda>url p w. (True, w\<lparr> files := checkout \<rparr>)),
       git_checkout_b = (\<lambda>b w. (GitOk, w)),
       git_checkout = (\<lambda>b w. (GitOk, w)),
       index_add = (\<lambda>f w. (GitOk, w)),
       index_commit = (\<lambda>m w. (commit_out, w)),
       remote_push = (\<lambda>b w. (push_out, w)),
       time_now = (\<lambda>w. 0),
       venv_create = (\<lambda>p w. (True, w)),
       subprocess_run = (\<lambda>cmd cwd w. (Completed [] [] 0, w)),
       popen_communicate = (\<lambda>cmd cwd w. (tests (ext w), w\<lparr> ext := Suc (ext w) \<rparr>)),
       http_post = (\<lambda>url token payload w. (remote (ext w), w\<lparr> ext := Suc (ext w) \<rparr>)),
       parse_errors = (\<lambda>out rp. classify out),
       send_progress = (\<lambda>status w. w),
       type_value = kind_name,
       set_order = demo_order,
       save_json = (\<lambda>r w. w) \<rparr>"

definition demo_world :: "nat world" where
  "demo_world = \<lparr> files = Map.empty, ext = 0 \<rparr>"

text \<open>A runner in local mode and one in sandbox mode, both with a budget of three.\<close>

definition local_runner :: DockerRunner where
  "local_runner = DockerRunner_init Map.empty ''/ws'' ''https://example.org/team/repo.git''
                    ''team'' ''lead'' 3 False"

definition sandbox_runner :: DockerRunner where
  "sandbox_runner = DockerRunner_init (Map.empty(''SANDBOX_URL'' \<mapsto> ''http://sandbox:9000''))
                      ''/ws'' ''https://example.org/team/repo.git'' ''team'' ''lead'' 3 False"

text \<open>
  A repository with two failures that the engine can fix, a test command that reports
  one of them at a time, and the parser for its reports.
\<close>

definition scenario_files :: fs where
  "scenario_files = Map.empty(''/ws/repo/app.py'' \<mapsto>
      Text (''import foo_sdk'' @ [NL] @ ''if x = 5:'' @ [NL] @ ''    pass'' @ [NL]))"

definition syntax_failure :: ErrorInfo where
  "syntax_failure = \<lparr> ei_type = SYNTAX, ei_file = ''app.py'', ei_line = 2,
                       ei_message = ''SyntaxError: invalid syntax'' \<rparr>"

definition module_failure :: ErrorInfo where
  "module_failure = \<lparr> ei_type = IMPORT, ei_file = ''app.py'', ei_line = 1,
      ei_message = ''ModuleNotFoundError: No module named '' @ [SQ] @ ''foo_sdk'' @ [SQ] \<rparr>"

definition scenario_tests :: "nat \<Rightarrow> proc_outcome" where
  "scenario_tests n =
     (if n = 0 then Completed ''FAILED app.py:2 SyntaxError'' [] 1
      else if n = 1 then Completed ''FAILED app.py:1 ModuleNotFoundError'' [] 1
      else Completed ''1 passed'' [] 0)"

definition scenario_classify :: "string \<Rightarrow> ErrorInfo list" where
  "scenario_classify out =
     (if out = ''FAILED app.py:2 SyntaxError'' @ [NL] then [syntax_failure]
      else if out = ''FAILED app.py:1 ModuleNotFoundError'' @ [NL] then [module_failure]
      else [])"

definition no_remote :: "nat \<Rightarrow> http_outcome" where
  "no_remote n = HttpRaises"

definition scenario_sys :: "nat sys" where
  "scenario_sys = demo_sys GitOk GitOk scenario_tests no_remote scenario_classify scenario_files"

text \<open>The same repository when every commit fails.\<close>

definition failing_commit_sys :: "nat sys" where
  "failing_commit_sys =
     demo_sys GitFails GitOk scenario_tests no_remote scenario_classify scenario_files"

text \<open>
  A sandbox host on which \<^verbatim>\<open>pytest\<close> exceeds its timeout and every other command
  succeeds, and a request to it.
\<close>

definition timeout_host :: "unit host" where
  "timeout_host =
     \<lparr> run_cmd = (\<lambda>cmd cwd t y.
                     (if take 1 cmd = [''pytest''] then TimeoutExpired else Completed [] [] 0, y)),
       mkdtemp = (\<lambda>y. (''/tmp/agent-workspace-0'', y)),
       cleanup = (\<lambda>d y. y),
       host_exists = (\<lambda>y p. False) \<rparr>"

definition demo_request :: RunTestsRequest where
  "demo_request = \<lparr> req_repo_url = ''https://example.org/team/repo.git'',
                     req_branch = Some ''TEAM_LEAD_AI_FIX'', req_timeout_sec = 120 \<rparr>"

text \<open>
  Collaborators in sandbox mode whose HTTP call is answered by that host, and the same
  with a push that fails.
\<close>

definition timeout_remote :: "nat \<Rightarrow> http_outcome" where
  "timeout_remote n =
     http_answer (fst (sandbox_run_tests Map.empty timeout_host demo_request None ()))"

definition sandbox_sys :: "nat sys" where
  "sandbox_sys = demo_sys GitOk GitOk scenario_tests timeout_remote scenario_classify scenario_files"



definition timeout_tests_sys :: "nat sys" where
  "timeout_tests_sys =
     demo_sys GitOk GitOk (\<lambda>n. TimeoutExpired) no_remote scenario_classify scenario_files"

text \<open>
  The runner and the world when \<^verbatim>\<open>run\<close> has cloned the repository and created the
  branch: for the scenario, with commits that fail, with a test command that times out,
  and in sandbox mode.
\<close>

definition prepared_runner :: DockerRunner where
  "prepared_runner = fst (snd (run_prepare scenario_sys local_runner demo_world))"

definition prepared_world :: "nat world" where
  "prepared_world = snd (snd (run_prepare scenario_sys local_runner demo_world))"

definition commit_runner :: DockerRunner where
  "commit_runner = fst (snd (run_prepare failing_commit_sys local_runner demo_world))"

definition commit_world :: "nat world" where
  "commit_world = snd (snd (run_prepare failing_commit_sys local_runner demo_world))"

definition timeout_runner :: DockerRunner where
  "timeout_runner = fst (snd (run_prepare timeout_tests_sys local_runner demo_world))"

definition timeout_world :: "nat world" where
  "timeout_world = snd (snd (run_prepare timeout_tests_sys local_runner demo_world))"

definition sandbox_prepared :: DockerRunner where
  "sandbox_prepared = fst (snd (run_prepare sandbox_sys sandbox_runner demo_world))"

definition sandbox_world :: "nat world" where
  "sandbox_world = snd (snd (run_prepare sandbox_sys sandbox_runner demo_world))"

text \<open>
  The scenario after its first pass through the loop body, after the second, and after
  the tests of the third; the two outcomes that the first two passes record.
\<close>

definition after_first :: "DockerRunner \<times> nat world" where
  "after_first = snd (loop_body scenario_sys ''/ws/repo'' ''TEAM_LEAD_AI_FIX'' 0
                        prepared_runner prepared_world)"

definition after_second :: "DockerRunner \<times> nat world" where
  "after_second = snd (loop_body scenario_sys ''/ws/repo'' ''TEAM_LEAD_AI_FIX'' 1
                         (fst after_first) (snd after_first))"

definition after_third :: "DockerRunner \<times> nat world" where
  "after_third = snd (test_and_classify scenario_sys ''/ws/repo'' ''TEAM_LEAD_AI_FIX'' 2
                        (fst after_second) (snd after_second))"

definition syntax_outcome :: FixResult where
  "syntax_outcome = \<lparr> fr_file = ''app.py'', fr_line = 2, fr_type = ''SYNTAX'',
      fr_commit_message = ''[AI-AGENT] Fixed SYNTAX error in app.py line 2'',
      fr_status = ''Fixed'' \<rparr>"

definition import_outcome :: FixResult where
  "import_outcome = \<lparr> fr_file = ''app.py'', fr_line = 1, fr_type = ''IMPORT'',
      fr_commit_message = ''[AI-AGENT] Fixed IMPORT error in app.py line 1'',
      fr_status = ''Fixed'' \<rparr>"



text \<open>
  An environment of the sandbox service in which the token is followed by a line feed,
  as when it is read from a file.
\<close>

definition padded_env :: "string \<rightharpoonup> string" where
  "padded_env = Map.empty(''SANDBOX_TOKEN'' \<mapsto> ''s3cret'' @ [NL])"

section \<open>Proof rules for the frame of a fix rule\<close>

text \<open>
  A rule respects the frame when it reports success, or hands back the file system it
  was given, or ends with the exception of a write that could not encode its text.
\<close>

definition frame_ok :: "fs \<Rightarrow> (exn + bool) \<times> fs \<Rightarrow> bool" where
  "frame_ok fs x = (fst x = Inr True \<or> snd x = fs \<or> fst x = Inl UnicodeError)"

section \<open>Properties of the report\<close>

lemma filter_length_eq_iff:
  "length (filter P xs) = length xs \<longleftrightarrow> (\<forall>x\<in>set xs. P x)"
proof (induction xs)
  case Nil
  show ?case by simp
next
  case (Cons a xs)
  have le: "length (filter P xs) \<le> length xs" by (rule length_filter_le)
  show ?case
  proof (cases "P a")
    case True
    with Cons show ?thesis by simp
  next
    case False
    from le have "length (filter P xs) \<noteq> Suc (length xs)" by linarith
    with False show ?thesis by simp
  qed
qed

lemma filter_length_zero_iff:
  "length (filter P xs) = 0 \<longleftrightarrow> (\<forall>x\<in>set xs. \<not> P x)"
  by (simp add: filter_empty_conv)

text \<open>
  Claim C1.  The status of the final report is a function of the list of fix outcomes
  alone: it is PASSED when at least one outcome is Fixed and every outcome is Fixed,
  FAILED when no outcome is Fixed (the empty list included), and PARTIAL in every
  other case.
\<close>

theorem report_status_determined:
  "ar_status (generate_response self branch) =
     (if (\<exists>f\<in>set (self_fixes self). fr_status f = ''Fixed'')
         \<and> (\<forall>f\<in>set (self_fixes self). fr_status f = ''Fixed'') then ''PASSED''
      else if \<not> (\<exists>f\<in>set (self_fixes self). fr_status f = ''Fixed'') then ''FAILED''
      else ''PARTIAL'')"
proof -
  let ?n = "length (filter (\<lambda>fix. fr_status fix = ''Fixed'') (self_fixes self))"
  have all: "?n = length (self_fixes self) \<longleftrightarrow> (\<forall>f\<in>set (self_fixes self). fr_status f = ''Fixed'')"
    by (rule filter_length_eq_iff)
  have none: "?n = 0 \<longleftrightarrow> \<not> (\<exists>f\<in>set (self_fixes self). fr_status f = ''Fixed'')"
    using filter_length_zero_iff [of "\<lambda>fix. fr_status fix = ''Fixed''" "self_fixes self"] by blast
  have pos: "0 < ?n \<longleftrightarrow> (\<exists>f\<in>set (self_fixes self). fr_status f = ''Fixed'')"
    using none by auto
  show ?thesis
    unfolding generate_response_def Let_def
    using all none pos by auto
qed

theorem report_status_determined_witness:
  "ar_status (generate_response
      ((DockerRunner_init Map.empty ''/ws'' ''repo'' ''team'' ''lead'' 3 False)
         \<lparr> self_fixes :=
             [\<lparr> fr_file = ''a.py'', fr_line = 1, fr_type = ''SYNTAX'',
                 fr_commit_message = ''m'', fr_status = ''Fixed'' \<rparr>,
              \<lparr> fr_file = ''a.py'', fr_line = 2, fr_type = ''LOGIC'',
                 fr_commit_message = [], fr_status = ''Failed'' \<rparr>] \<rparr>) ''B'')
   = ''PARTIAL''"
  using report_status_determined
    [of "(DockerRunner_init Map.empty ''/ws'' ''repo'' ''team'' ''lead'' 3 False)
         \<lparr> self_fixes :=
             [\<lparr> fr_file = ''a.py'', fr_line = 1, fr_type = ''SYNTAX'',
                 fr_commit_message = ''m'', fr_status = ''Fixed'' \<rparr>,
              \<lparr> fr_file = ''a.py'', fr_line = 2, fr_type = ''LOGIC'',
                 fr_commit_message = [], fr_status = ''Failed'' \<rparr>] \<rparr>" "''B''"]
  by simp

section \<open>Properties of the fix engine\<close>

lemma frame_ok_leaf [simp]:
  "frame_ok fs (Inr False, fs)" "frame_ok fs (Inl e, fs)" "frame_ok fs (write_lines fs p ls)"
  by (simp_all add: frame_ok_def write_lines_def)

lemma frame_ok_if: "frame_ok fs a \<Longrightarrow> frame_ok fs b \<Longrightarrow> frame_ok fs (if c then a else b)"
  by simp

lemma frame_ok_sum:
  "(\<And>e. frame_ok fs (f e)) \<Longrightarrow> (\<And>y. frame_ok fs (g y))
     \<Longrightarrow> frame_ok fs (case x of Inl e \<Rightarrow> f e | Inr y \<Rightarrow> g y)"
  by (cases x) simp_all

lemma frame_ok_option:
  "frame_ok fs a \<Longrightarrow> (\<And>y. frame_ok fs (g y))
     \<Longrightarrow> frame_ok fs (case x of None \<Rightarrow> a | Some y \<Rightarrow> g y)"
  by (cases x) simp_all

lemma frame_ok_prod:
  "(\<And>a b. frame_ok fs (f a b)) \<Longrightarrow> frame_ok fs (case p of (a, b) \<Rightarrow> f a b)"
  by (cases p) simp

lemmas frame_rules = frame_ok_if frame_ok_sum frame_ok_option frame_ok_prod frame_ok_leaf

text \<open>
  Every rule of the engine respects the frame: the proofs follow the branching of each
  function down to its return statements and its writes.
\<close>

lemma fix_syntax_frame: "frame_ok fs (fix_syntax rp e fs)"
  unfolding fix_syntax_def Let_def by (intro frame_rules)

lemma fix_indentation_frame: "frame_ok fs (fix_indentation rp e fs)"
  unfolding fix_indentation_def Let_def by (intro frame_rules)

lemma add_typing_import_frame: "frame_ok fs (add_typing_import ls n p fs)"
  unfolding add_typing_import_def Let_def by (intro frame_rules)

lemma fix_string_concatenation_frame: "frame_ok fs (fix_string_concatenation ls n m p fs)"
  unfolding fix_string_concatenation_def Let_def by (intro frame_rules)

lemma fix_type_error_frame: "frame_ok fs (fix_type_error ord rp e fs)"
  unfolding fix_type_error_def fix_operand_type_def Let_def
  by (intro frame_rules add_typing_import_frame fix_string_concatenation_frame)

lemma fix_import_frame: "frame_ok fs (fix_import rp e fs)"
  unfolding fix_import_def comment_out_import_def remove_from_import_def
    fix_relative_import_def Let_def
  by (intro frame_rules)

lemma fix_logic_frame: "frame_ok fs (fix_logic rp e fs)"
  unfolding fix_logic_def initialize_variable_def fix_attribute_error_def Let_def
  by (intro frame_rules)

lemma fix_linting_frame: "frame_ok fs (fix_linting rp e fs)"
  unfolding fix_linting_def remove_unused_import_def remove_unused_variable_def
    remove_trailing_whitespace_def Let_def
  by (intro frame_rules)

lemma dispatch_frame: "frame_ok fs (dispatch ord rp e fs)"
  unfolding dispatch_def
  by (cases "ei_type e")
     (simp_all add: fix_syntax_frame fix_indentation_frame fix_type_error_frame
        fix_import_frame fix_logic_frame fix_linting_frame)

text \<open>
  When \<open>apply_fix\<close> returns False, the file system is the one it was given unless a
  write raised because its text could not be encoded.
\<close>

lemma apply_fix_false_frame:
  "fst (apply_fix ord rp e fs) = False \<Longrightarrow>
     snd (apply_fix ord rp e fs) = fs \<or> fst (dispatch ord rp e fs) = Inl UnicodeError"
  using dispatch_frame [of fs ord rp e]
  by (cases "dispatch ord rp e fs"; cases "fst (dispatch ord rp e fs)")
     (simp_all add: apply_fix_def frame_ok_def)


text \<open>
  Claim C5 fails on the rule that initialises an undefined name.  For the file
  \<open>logic_file\<close> and the record \<open>logic_error\<close>, the first dispatch returns True and
  inserts the initialising line before line 1; a second dispatch of the same record
  returns True again and inserts the line a second time, so it neither returns False
  nor leaves the file as the first dispatch left it.
\<close>

theorem initialize_variable_twice:
  "fst (apply_fix demo_order ''/ws/repo'' logic_error logic_file) = True
   \<and> snd (apply_fix demo_order ''/ws/repo'' logic_error logic_file) ''/ws/repo/app.py''
       = Some (Text (''total = None  # AI-AGENT: Auto-initialized'' @ [NL] @ ''print(total)'' @ [NL]))
   \<and> fst (apply_fix demo_order ''/ws/repo'' logic_error
             (snd (apply_fix demo_order ''/ws/repo'' logic_error logic_file))) = True
   \<and> snd (apply_fix demo_order ''/ws/repo'' logic_error
             (snd (apply_fix demo_order ''/ws/repo'' logic_error logic_file))) ''/ws/repo/app.py''
       = Some (Text (''total = None  # AI-AGENT: Auto-initialized'' @ [NL]
                     @ ''total = None  # AI-AGENT: Auto-initialized'' @ [NL]
                     @ ''print(total)'' @ [NL]))"
  by code_simp

text \<open>
  Claim C9 fails where one imported name contains another.  For the file
  \<open>import_file\<close>, whose first line imports \<^verbatim>\<open>Square, SquareRoot, Circle\<close>, and a record
  that reports \<^verbatim>\<open>cannot import name 'Square'\<close>, the dispatch returns True and the line
  becomes \<^verbatim>\<open>from shapes import Circle\<close>: the name \<^verbatim>\<open>SquareRoot\<close> is removed as well.
\<close>

theorem remove_from_import_substring:
  "fst (apply_fix demo_order ''/ws/repo'' import_error import_file) = True
   \<and> snd (apply_fix demo_order ''/ws/repo'' import_error import_file) ''/ws/repo/app.py''
       = Some (Text (''from shapes import Circle'' @ [NL] @ ''x = 1'' @ [NL]))"
  by code_simp

text \<open>
  The comparison rule.  A message that contains the words \<^verbatim>\<open>invalid syntax\<close> as they are
  written also contains them after \<^verbatim>\<open>lower()\<close>, which is the test the code makes.
\<close>

lemma startswith_lower: "startswith s p \<Longrightarrow> startswith (lower s) (lower p)"
  unfolding startswith_def lower_def by (metis length_map take_map)

lemma contains_lower: "contains p m \<Longrightarrow> contains (lower p) (lower m)"
proof (induction m)
  case Nil
  then show ?case by (simp add: lower_def)
next
  case (Cons c cs)
  from Cons.prems have "startswith (c # cs) p \<or> contains p cs" by simp
  then show ?case
  proof
    assume "startswith (c # cs) p"
    from startswith_lower [OF this] show ?thesis by (simp add: lower_def)
  next
    assume "contains p cs"
    from Cons.IH [OF this] show ?thesis by (simp add: lower_def)
  qed
qed













section \<open>Properties of the sandbox service\<close>

text \<open>
  Once the token check has passed, no path of the handler ends with status 401.
\<close>

lemma fst_ne_if: "fst a \<noteq> v \<Longrightarrow> fst b \<noteq> v \<Longrightarrow> fst (if c then a else b) \<noteq> v"
  by simp

lemma fst_ne_prod: "(\<And>a b. fst (f a b) \<noteq> v) \<Longrightarrow> fst (case p of (a, b) \<Rightarrow> f a b) \<noteq> v"
  by (cases p) simp

lemma fst_ne_proc:
  "(\<And>out err rc. fst (f out err rc) \<noteq> v) \<Longrightarrow> fst g \<noteq> v \<Longrightarrow> fst h \<noteq> v
     \<Longrightarrow> fst (case p of Completed out err rc \<Rightarrow> f out err rc | TimeoutExpired \<Rightarrow> g | ProcError \<Rightarrow> h) \<noteq> v"
  by (cases p) simp_all

lemma handler_not_401:
  "check_auth env x = Inr u \<Longrightarrow> fst (sandbox_run_tests env h req x y) \<noteq> Inl (HTTPException 401)"
  unfolding sandbox_run_tests_def Let_def
  by (simp only: sum.case) (intro fst_ne_if fst_ne_prod fst_ne_proc; simp)

text \<open>
  Claim C10 does not hold for the value of the environment variable as it stands: the
  service compares the header with the value after \<^verbatim>\<open>strip()\<close>.  In \<open>padded_env\<close> the
  value of \<^verbatim>\<open>SANDBOX_TOKEN\<close> is \<^verbatim>\<open>s3cret\<close> followed by a line feed; it is not empty and the
  header \<^verbatim>\<open>s3cret\<close> differs from it, yet the request is not rejected with status 401.
\<close>

theorem token_compared_after_strip:
  "getenv padded_env ''SANDBOX_TOKEN'' [] = ''s3cret'' @ [NL]
   \<and> getenv padded_env ''SANDBOX_TOKEN'' [] \<noteq> []
   \<and> Some ''s3cret'' \<noteq> Some (getenv padded_env ''SANDBOX_TOKEN'' [])
   \<and> fst (sandbox_run_tests padded_env timeout_host demo_request (Some ''s3cret'') ())
       \<noteq> Inl (HTTPException 401)"
  by code_simp

text \<open>
  Claim C10, amended.  The handler of \<^verbatim>\<open>/run-tests\<close> rejects a request with status 401
  if and only if the value of \<^verbatim>\<open>SANDBOX_TOKEN\<close> with the white space at both ends removed
  is not empty and the header \<^verbatim>\<open>X-Sandbox-Token\<close> is absent or differs from that stripped
  value.  So when the variable is unset, empty or white space only, no request is
  rejected with status 401, whatever its header.
\<close>

theorem sandbox_auth:
  "(fst (sandbox_run_tests env h req x y) = Inl (HTTPException 401))
     = (strip (getenv env ''SANDBOX_TOKEN'' []) \<noteq> []
        \<and> x \<noteq> Some (strip (getenv env ''SANDBOX_TOKEN'' [])))"
proof (cases "check_auth env x")
  case (Inl e)
  then have "strip (getenv env ''SANDBOX_TOKEN'' []) \<noteq> []
        \<and> x \<noteq> Some (strip (getenv env ''SANDBOX_TOKEN'' []))" and "e = HTTPException 401"
    unfolding check_auth_def SANDBOX_TOKEN_def by (simp_all split: if_splits)
  with Inl show ?thesis unfolding sandbox_run_tests_def by simp
next
  case (Inr u)
  then have "\<not> (strip (getenv env ''SANDBOX_TOKEN'' []) \<noteq> []
        \<and> x \<noteq> Some (strip (getenv env ''SANDBOX_TOKEN'' [])))"
    unfolding check_auth_def SANDBOX_TOKEN_def by (simp split: if_splits)
  with handler_not_401 [OF Inr, of h req y] show ?thesis by simp
qed

theorem sandbox_auth_witness:
  "fst (sandbox_run_tests padded_env timeout_host demo_request (Some ''guess'') ())
     = Inl (HTTPException 401)
   \<and> fst (sandbox_run_tests padded_env timeout_host demo_request (Some ''s3cret'') ())
     \<noteq> Inl (HTTPException 401)
   \<and> fst (sandbox_run_tests Map.empty timeout_host demo_request (Some ''guess'') ())
     \<noteq> Inl (HTTPException 401)"
proof -
  have a: "strip (getenv padded_env ''SANDBOX_TOKEN'' []) = ''s3cret''" by code_simp
  have b: "strip (getenv Map.empty ''SANDBOX_TOKEN'' []) = []" by code_simp
  show ?thesis
    using sandbox_auth [of padded_env timeout_host demo_request "Some ''guess''" "()"]
      sandbox_auth [of padded_env timeout_host demo_request "Some ''s3cret''" "()"]
      sandbox_auth [of Map.empty timeout_host demo_request "Some ''guess''" "()"]
    unfolding a b by simp
qed

section \<open>Properties of the orchestrator\<close>

text \<open>
  What one call of \<^verbatim>\<open>_apply_and_commit_fix\<close>, the loop over the failures, one pass
  through the body of the repair loop, the whole loop and the steps before it do to
  the state of the orchestrator, and when they cannot raise.
\<close>

lemma apply_and_commit_fix_cases:
  assumes "apply_and_commit_fix c e self w = (r, s', w')"
  shows "(r = Inr True \<and> (\<exists>rec. s' = self\<lparr> self_fixes := self_fixes self @ [rec] \<rparr> \<and> fr_status rec = ''Fixed''))
       \<or> (r = Inr False \<and> (s' = self \<or> (\<exists>rec. s' = self\<lparr> self_fixes := self_fixes self @ [rec] \<rparr>
                                          \<and> fr_status rec = ''Failed'' \<and> fr_commit_message rec = [])))
       \<or> (r = Inl LibraryError \<and> fixer self = None \<and> s' = self)"
proof (cases "fixer self")
  case None
  with assms have "r = Inl LibraryError \<and> s' = self"
    by (simp add: apply_and_commit_fix_def Let_def)
  with None show ?thesis by simp
next
  case (Some rp)
  let ?w0 = "emit_progress c self ''fixing'' w"
  obtain success fs' where af: "apply_fix (set_order c) rp e (files ?w0) = (success, fs')"
    by (rule prod.exhaust)
  show ?thesis
  proof (cases success)
    case False
    with assms Some af
    have "r = Inr False" and
      "s' = self\<lparr> self_fixes := self_fixes self @
              [\<lparr> fr_file = ei_file e, fr_line = ei_line e, fr_type = type_value c (ei_type e),
                 fr_commit_message = [], fr_status = ''Failed'' \<rparr>] \<rparr>"
      by (simp_all add: apply_and_commit_fix_def Let_def)
    then show ?thesis by (intro disjI2 disjI1 conjI exI [where x = "\<lparr> fr_file = ei_file e, fr_line = ei_line e, fr_type = type_value c (ei_type e),
                 fr_commit_message = [], fr_status = ''Failed'' \<rparr>"]) simp_all
  next
    case True
    obtain cr w1 where cf:
      "commit_fix c (git_handler self) (ei_file e) (type_value c (ei_type e)) (ei_line e)
         (ei_message e) (?w0\<lparr> files := fs' \<rparr>) = (cr, w1)"
      by (rule prod.exhaust)
    show ?thesis
    proof (cases cr)
      case (Inl x)
      with assms Some af True cf have "r = Inr False" and "s' = self"
        by (simp_all add: apply_and_commit_fix_def Let_def)
      then show ?thesis by simp
    next
      case (Inr m)
      with assms Some af True cf
      have "r = Inr True" and
        "s' = self\<lparr> self_fixes := self_fixes self @
              [\<lparr> fr_file = ei_file e, fr_line = ei_line e, fr_type = type_value c (ei_type e),
                 fr_commit_message = m, fr_status = ''Fixed'' \<rparr>] \<rparr>"
        by (simp_all add: apply_and_commit_fix_def Let_def)
      then show ?thesis by (intro disjI1 conjI exI [where x = "\<lparr> fr_file = ei_file e, fr_line = ei_line e, fr_type = type_value c (ei_type e),
                 fr_commit_message = m, fr_status = ''Fixed'' \<rparr>"]) simp_all
    qed
  qed
qed

lemma apply_and_commit_fix_shape:
  assumes "apply_and_commit_fix c e self w = (r, s', w')"
  shows "\<exists>fx. s' = self\<lparr> self_fixes := self_fixes self @ fx \<rparr>"
proof -
  have A: "\<And>rec. s' = self\<lparr> self_fixes := self_fixes self @ [rec] \<rparr> \<Longrightarrow> ?thesis"
    by (rule exI)
  have B: "s' = self \<Longrightarrow> ?thesis"
  proof -
    assume "s' = self"
    then have "s' = self\<lparr> self_fixes := self_fixes self @ [] \<rparr>" by simp
    then show ?thesis by (rule exI)
  qed
  from apply_and_commit_fix_cases [OF assms] show ?thesis
    by (elim disjE conjE exE) (erule A B)+
qed


lemma apply_fixes_shape:
  "apply_fixes c es n self w = (r, s', w') \<Longrightarrow> \<exists>fx. s' = self\<lparr> self_fixes := self_fixes self @ fx \<rparr>"
proof (induction es arbitrary: n self w)
  case Nil
  then have "s' = self" by simp
  then have "s' = self\<lparr> self_fixes := self_fixes self @ [] \<rparr>" by simp
  then show ?case by (rule exI)
next
  case (Cons e es)
  obtain r1 s1 w1 where step: "apply_and_commit_fix c e self w = (r1, s1, w1)"
    by (rule prod_cases3)
  from apply_and_commit_fix_shape [OF step]
  obtain fx1 where s1: "s1 = self\<lparr> self_fixes := self_fixes self @ fx1 \<rparr>" by (rule exE)
  show ?case
  proof (cases r1)
    case (Inl x)
    from Cons.prems have "s' = s1"
      unfolding apply_fixes.simps step Inl by simp
    with s1 have "s' = self\<lparr> self_fixes := self_fixes self @ fx1 \<rparr>" by simp
    then show ?thesis by (rule exI)
  next
    case (Inr b)
    from Cons.prems
    have "apply_fixes c es (if b then n + 1 else n) s1 w1 = (r, s', w')"
      unfolding apply_fixes.simps step Inr by simp
    from Cons.IH [OF this] obtain fx2 where s2: "s' = s1\<lparr> self_fixes := self_fixes s1 @ fx2 \<rparr>"
      by (rule exE)
    have "s' = self\<lparr> self_fixes := self_fixes self @ (fx1 @ fx2) \<rparr>"
      unfolding s2 s1 by simp
    then show ?thesis by (rule exI)
  qed
qed


lemma test_and_classify_self:
  "test_and_classify c rp bn i self w = (r, s', w') \<Longrightarrow> s' = self\<lparr> iterations := i + 1 \<rparr>"
  unfolding test_and_classify_def Let_def
  by (auto split: prod.splits sum.splits bool.splits if_splits)

lemma detect_fields:
  "test_command (detect_project_type s rp w) \<noteq> None
   \<and> fixer (detect_project_type s rp w) = fixer s
   \<and> sandbox_url (detect_project_type s rp w) = sandbox_url s
   \<and> iterations (detect_project_type s rp w) = iterations s
   \<and> max_retries (detect_project_type s rp w) = max_retries s
   \<and> self_fixes (detect_project_type s rp w) = self_fixes s"
  by (simp add: detect_project_type_def Let_def)

lemma create_venv_fields:
  assumes "create_venv c s rp w = (s', w')"
  shows "test_command s' = test_command s \<and> fixer s' = fixer s
   \<and> sandbox_url s' = sandbox_url s \<and> iterations s' = iterations s
   \<and> max_retries s' = max_retries s \<and> self_fixes s' = self_fixes s"
proof -
  obtain created w2 where cr:
    "(if path_exists w (path_join rp ''.venv'') then (True, w)
      else venv_create c (path_join rp ''.venv'') w) = (created, w2)"
    by (rule prod.exhaust)
  show ?thesis
  proof (cases created)
    case True
    with assms cr have "s' = s\<lparr> venv_path := Some (path_join rp ''.venv''),
        venv_python := Some (path_join (path_join (path_join rp ''.venv'') ''bin'') ''python'') \<rparr>"
      unfolding create_venv_def Let_def by simp
    then show ?thesis by simp
  next
    case False
    with assms cr have "s' = s\<lparr> venv_path := None, venv_python := None \<rparr>"
      unfolding create_venv_def Let_def by simp
    then show ?thesis by simp
  qed
qed

lemma prepare_environment_fields:
  assumes "prepare_environment c s rp w = (s', w')"
  shows "test_command s' \<noteq> None \<and> fixer s' = fixer s
   \<and> sandbox_url s' = sandbox_url s \<and> iterations s' = iterations s
   \<and> max_retries s' = max_retries s \<and> self_fixes s' = self_fixes s"
proof -
  let ?w0 = "emit_progress c s ''analyzing'' w"
  let ?s1 = "detect_project_type s rp ?w0"
  let ?w1 = "emit_progress c ?s1 ''info'' ?w0"
  obtain sv wv where cv: "create_venv c ?s1 rp (emit_progress c ?s1 ''venv'' ?w1) = (sv, wv)"
    by (rule prod.exhaust)
  from assms cv have "s' = sv \<or> s' = ?s1"
    unfolding prepare_environment_def Let_def by (simp split: if_splits)
  then show ?thesis
  proof
    assume "s' = sv"
    with create_venv_fields [OF cv] detect_fields [of s rp ?w0] show ?thesis by simp
  next
    assume "s' = ?s1"
    with detect_fields [of s rp ?w0] show ?thesis by simp
  qed
qed





lemma loop_body_shape:
  assumes "loop_body c rp bn i self w = (r, s', w')"
  shows "\<exists>tf fx. s' = self\<lparr> iterations := i + 1, total_failures := tf,
                              self_fixes := self_fixes self @ fx \<rparr>"
proof -
  obtain r0 s0 w0 where tc: "test_and_classify c rp bn i self w = (r0, s0, w0)"
    by (rule prod_cases3)
  from test_and_classify_self [OF tc] have s0: "s0 = self\<lparr> iterations := i + 1 \<rparr>" .
  have plain: "s' = s0 \<Longrightarrow> ?thesis"
  proof -
    assume "s' = s0"
    with s0 have "s' = self\<lparr> iterations := i + 1, total_failures := total_failures self,
                          self_fixes := self_fixes self @ [] \<rparr>" by simp
    then show ?thesis by (intro exI)
  qed
  show ?thesis
  proof (cases r0)
    case (Inl e)
    with assms tc have "s' = s0" unfolding loop_body_def by simp
    then show ?thesis by (rule plain)
  next
    case (Inr errors)
    show ?thesis
    proof (cases "errors = []")
      case True
      with assms tc Inr have "s' = s0" unfolding loop_body_def by simp
      then show ?thesis by (rule plain)
    next
      case False
      let ?s1 = "s0\<lparr> total_failures := length errors \<rparr>"
      let ?w2 = "emit_progress c ?s1 ''fixing'' (emit_progress c ?s1 ''warning'' w0)"
      obtain r3 s3 w3 where af: "apply_fixes c errors 0 ?s1 ?w2 = (r3, s3, w3)"
        by (rule prod_cases3)
      from apply_fixes_shape [OF af] obtain fx where
        s3: "s3 = ?s1\<lparr> self_fixes := self_fixes ?s1 @ fx \<rparr>" by (rule exE)
      from assms tc Inr False af have "s' = s3"
        unfolding loop_body_def Let_def by (cases r3) (simp_all split: if_splits)
      with s3 s0 have "s' = self\<lparr> iterations := i + 1, total_failures := length errors,
                          self_fixes := self_fixes self @ fx \<rparr>" by simp
      then show ?thesis by (intro exI)
    qed
  qed
qed


lemma fix_loop_shape:
  "fix_loop c rp bn its self w = (r, s', w') \<Longrightarrow>
   \<exists>it tf fx. s' = self\<lparr> iterations := it, total_failures := tf,
                         self_fixes := self_fixes self @ fx \<rparr>
              \<and> (it = iterations self \<or> (\<exists>i\<in>set its. it = i + 1))"
proof (induction its arbitrary: self w)
  case Nil
  then have "s' = self" by simp
  then have "s' = self\<lparr> iterations := iterations self, total_failures := total_failures self,
                        self_fixes := self_fixes self @ [] \<rparr>
             \<and> (iterations self = iterations self \<or> (\<exists>i\<in>set []. iterations self = i + 1))"
    by simp
  then show ?case by (intro exI)
next
  case (Cons i its)
  obtain r1 s1 w1 where lb: "loop_body c rp bn i self w = (r1, s1, w1)"
    by (rule prod_cases3)
  from loop_body_shape [OF lb] obtain tf1 fx1 where
    s1: "s1 = self\<lparr> iterations := i + 1, total_failures := tf1,
                    self_fixes := self_fixes self @ fx1 \<rparr>"
    by (elim exE)
  have stop: "s' = s1 \<Longrightarrow> ?case"
  proof -
    assume "s' = s1"
    with s1 have "s' = self\<lparr> iterations := i + 1, total_failures := tf1,
                          self_fixes := self_fixes self @ fx1 \<rparr>
                  \<and> (i + 1 = iterations self \<or> (\<exists>j\<in>set (i # its). i + 1 = j + 1))"
      by simp
    then show ?case by (intro exI)
  qed
  show ?case
  proof (cases r1)
    case (Inl e)
    with Cons.prems lb have "s' = s1" by simp
    then show ?thesis by (rule stop)
  next
    case (Inr fl)
    show ?thesis
    proof (cases fl)
      case Break
      with Cons.prems lb Inr have "s' = s1" by simp
      then show ?thesis by (rule stop)
    next
      case Continue
      with Cons.prems lb Inr have "fix_loop c rp bn its s1 w1 = (r, s', w')" by simp
      from Cons.IH [OF this] obtain it tf fx where
        s': "s' = s1\<lparr> iterations := it, total_failures := tf, self_fixes := self_fixes s1 @ fx \<rparr>"
        and it: "it = iterations s1 \<or> (\<exists>j\<in>set its. it = j + 1)"
        by (elim exE conjE)
      from s' s1 have "s' = self\<lparr> iterations := it, total_failures := tf,
                            self_fixes := self_fixes self @ (fx1 @ fx) \<rparr>" by simp
      moreover from it s1 have "it = iterations self \<or> (\<exists>j\<in>set (i # its). it = j + 1)"
        by auto
      ultimately show ?thesis by (intro exI conjI)
    qed
  qed
qed

lemma fix_loop_bound:
  assumes "fix_loop c rp bn [0..<n] self w = (r, s', w')" and "iterations self \<le> n"
  shows "iterations s' \<le> n \<and> max_retries s' = max_retries self"
proof -
  from fix_loop_shape [OF assms(1)] obtain it tf fx where
    s': "s' = self\<lparr> iterations := it, total_failures := tf, self_fixes := self_fixes self @ fx \<rparr>"
    and it: "it = iterations self \<or> (\<exists>i\<in>set [0..<n]. it = i + 1)"
    by (elim exE conjE)
  from it assms(2) have "it \<le> n" by auto
  with s' show ?thesis by simp
qed


lemma apply_and_commit_fix_true:
  assumes "apply_and_commit_fix c e self w = (Inr True, s', w')"
  shows "\<exists>rec. s' = self\<lparr> self_fixes := self_fixes self @ [rec] \<rparr> \<and> fr_status rec = ''Fixed''"
  using apply_and_commit_fix_cases [OF assms] by (elim disjE conjE) simp_all

lemma loop_body_none:
  assumes "test_and_classify c rp bn i self w = (Inr [], s1, w1)"
  shows "loop_body c rp bn i self w = (Inr Break, s1, emit_progress c s1 ''success'' w1)"
  using assms unfolding loop_body_def by simp

lemma loop_body_zero_fixes:
  assumes "test_and_classify c rp bn i self w = (Inr errors, s1, w1)" and "errors \<noteq> []"
    and "apply_fixes c errors 0 (s1\<lparr> total_failures := length errors \<rparr>)
           (emit_progress c (s1\<lparr> total_failures := length errors \<rparr>) ''fixing''
              (emit_progress c (s1\<lparr> total_failures := length errors \<rparr>) ''warning'' w1))
         = (Inr 0, s2, w2)"
  shows "loop_body c rp bn i self w
         = (Inr Break, s2, emit_progress c s2 ''error'' (emit_progress c s2 ''info'' w2))"
  using assms unfolding loop_body_def Let_def by simp

lemma loop_body_one_fixed:
  assumes "test_and_classify c rp bn i self w = (Inr [e], s1, w1)"
    and "apply_and_commit_fix c e (s1\<lparr> total_failures := 1 \<rparr>)
           (emit_progress c (s1\<lparr> total_failures := 1 \<rparr>) ''fixing''
              (emit_progress c (s1\<lparr> total_failures := 1 \<rparr>) ''warning'' w1))
         = (Inr True, s2, w2)"
  shows "loop_body c rp bn i self w = (Inr Continue, s2, emit_progress c s2 ''info'' w2)"
  using assms unfolding loop_body_def Let_def by simp

lemma upt_three: "[0..<nat 3] = [0, 1, 2]"
  by code_simp

lemma run_prepare_any:
  assumes "run_prepare c self w = (r, s1, w1)"
  shows "iterations s1 = iterations self \<and> max_retries s1 = max_retries self"
proof -
  let ?w0 = "emit_progress c self ''cloning'' (emit_progress c self ''info'' w)"
  obtain cr gh wc where cl: "clone_repo c (git_handler self) (repo_url self) ?w0 = (cr, gh, wc)"
    by (rule prod_cases3)
  show ?thesis
  proof (cases cr)
    case (Inl e)
    with assms cl have "s1 = self\<lparr> git_handler := gh \<rparr>"
      unfolding run_prepare_def Let_def by simp
    then show ?thesis by simp
  next
    case (Inr rp0)
    let ?sa = "self\<lparr> git_handler := gh, fixer := Some rp0 \<rparr>"
    obtain sb wb where pe:
      "prepare_environment c ?sa rp0 (emit_progress c ?sa ''success'' wc) = (sb, wb)"
      by (rule prod.exhaust)
    obtain br wd where cb:
      "create_branch c (git_handler sb) (team sb) (leader sb) (emit_progress c sb ''info'' wb) = (br, wd)"
      by (rule prod.exhaust)
    from assms cl Inr pe cb
    have "iterations s1 = iterations sb \<and> max_retries s1 = max_retries sb"
      unfolding run_prepare_def Let_def by (cases br) auto
    with prepare_environment_fields [OF pe] show ?thesis by simp
  qed
qed

lemma run_finish_self: "fst (snd (run_finish c bn self w)) = self"
  unfolding run_finish_def Let_def by simp

lemma run_iterations_bound:
  assumes "iterations self = 0"
  shows "iterations (fst (snd (run c self w))) \<le> nat (max_retries self)"
proof -
  obtain r1 s1 w1 where rp: "run_prepare c self w = (r1, s1, w1)" by (rule prod_cases3)
  from run_prepare_any [OF rp] assms
  have f1: "iterations s1 = 0" "max_retries s1 = max_retries self" by simp_all
  show ?thesis
  proof (cases r1)
    case (Inl e)
    with rp f1 show ?thesis unfolding run_def by simp
  next
    case (Inr pb)
    obtain rpath bn where pb: "pb = (rpath, bn)" by (rule prod.exhaust)
    obtain r2 w2 where fp: "first_push c bn s1 w1 = (r2, w2)" by (rule prod.exhaust)
    show ?thesis
    proof (cases r2)
      case (Inl e)
      with rp Inr pb fp f1 show ?thesis unfolding run_def by simp
    next
      case (Inr u)
      obtain r3 s3 w3 where fl:
        "fix_loop c rpath bn [0..<nat (max_retries s1)] s1 w2 = (r3, s3, w3)"
        by (rule prod_cases3)
      from fix_loop_bound [OF fl] f1 have b: "iterations s3 \<le> nat (max_retries self)" by simp
      obtain resp s4 w4 where rf: "run_finish c bn s3 w3 = (resp, s4, w4)" by (rule prod_cases3)
      from run_finish_self [of c bn s3 w3] rf have "s4 = s3" by simp
      with rp \<open>r1 = Inr pb\<close> pb fp Inr fl rf b show ?thesis
        unfolding run_def by (cases r3) simp_all
    qed
  qed
qed

lemma triple_eq: "fst x = a \<Longrightarrow> x = (a, fst (snd x), snd (snd x))"
  by (cases x) simp

text \<open>
  When the edit succeeds and the commit raises, \<^verbatim>\<open>_apply_and_commit_fix\<close> returns False
  from its \<^verbatim>\<open>except\<close> branch and the state of the orchestrator is what it was: no
  outcome is appended.
\<close>

lemma commit_failure_no_outcome:
  assumes "fixer self = Some rp"
    and "fst (apply_fix (set_order c) rp e (files (emit_progress c self ''fixing'' w))) = True"
    and "fst (commit_fix c (git_handler self) (ei_file e) (type_value c (ei_type e)) (ei_line e)
                (ei_message e)
                ((emit_progress c self ''fixing'' w)
                   \<lparr> files := snd (apply_fix (set_order c) rp e
                                     (files (emit_progress c self ''fixing'' w))) \<rparr>)) = Inl x"
  shows "fst (apply_and_commit_fix c e self w) = Inr False
         \<and> fst (snd (apply_and_commit_fix c e self w)) = self"
proof -
  let ?w = "emit_progress c self ''fixing'' w"
  obtain ok fs' where af: "apply_fix (set_order c) rp e (files ?w) = (ok, fs')"
    by (rule prod.exhaust)
  obtain r w1 where cf: "commit_fix c (git_handler self) (ei_file e) (type_value c (ei_type e))
                (ei_line e) (ei_message e) (?w\<lparr> files := fs' \<rparr>) = (r, w1)"
    by (rule prod.exhaust)
  from assms(2) af have ok: "ok" by simp
  from assms(3) af cf have r: "r = Inl x" by simp
  show ?thesis
    unfolding apply_and_commit_fix_def Let_def using assms(1) af cf ok r by simp
qed

text \<open>
  Claim C2 fails where the commit raises.  In the scenario with commits that fail, the
  edit of the syntax failure succeeds and rewrites line 2 of \<^verbatim>\<open>app.py\<close>, the commit raises
  \<^verbatim>\<open>GitCommandError\<close>, and \<^verbatim>\<open>_apply_and_commit_fix\<close> returns False without recording an
  outcome: the list of outcomes is empty before and after.  The run ends after one
  iteration with a report that has no outcome at all, although the file was edited.
\<close>

theorem commit_failure_unrecorded:
  "fst (apply_fix demo_order ''/ws/repo'' syntax_failure (files commit_world)) = True
   \<and> fst (commit_fix failing_commit_sys (git_handler commit_runner) ''app.py'' ''SYNTAX'' 2
            ''SyntaxError: invalid syntax''
            (commit_world\<lparr> files := snd (apply_fix demo_order ''/ws/repo'' syntax_failure
                                            (files commit_world)) \<rparr>))
       = Inl GitCommandError
   \<and> fst (apply_and_commit_fix failing_commit_sys syntax_failure commit_runner commit_world)
       = Inr False
   \<and> self_fixes commit_runner = []
   \<and> self_fixes (fst (snd (apply_and_commit_fix failing_commit_sys syntax_failure
                             commit_runner commit_world))) = []
   \<and> files (snd (snd (apply_and_commit_fix failing_commit_sys syntax_failure
                        commit_runner commit_world))) ''/ws/repo/app.py''
       = Some (Text (''import foo_sdk'' @ [NL] @ ''if x == 5:'' @ [NL] @ ''    pass'' @ [NL]))
   \<and> fst (run failing_commit_sys local_runner demo_world)
       = Inr \<lparr> ar_repo = ''https://example.org/team/repo.git'', ar_branch = ''TEAM_LEAD_AI_FIX'',
               ar_total_failures = 1, ar_total_fixes = 0, ar_iterations = 1,
               ar_status = ''FAILED'', ar_fixes = [] \<rparr>"
  by code_simp

text \<open>
  Claim C3.  A run that starts with the iteration counter at zero ends with the counter
  at most \<open>max_retries\<close>.  The loop stops with the iteration whose tests classify to no
  failure, and with the iteration in which no fix succeeds, whatever iterations
  remain.  With a budget of three, when the first and the second pass through the body
  each continue and record one outcome Fixed, and the tests of the third pass classify
  to no failure, the loop stops with the counter at 3 and the report has 3 iterations
  and the status PASSED.
\<close>

theorem repair_loop_budget:
  "(iterations self = 0 \<longrightarrow> iterations (fst (snd (run c self w))) \<le> nat (max_retries self))
   \<and> (test_and_classify c rp bn i self w = (Inr [], sa, wa) \<longrightarrow>
        fix_loop c rp bn (i # rest) self w = (Inr (), sa, emit_progress c sa ''success'' wa))
   \<and> (test_and_classify c rp bn i self w = (Inr errors, sa, wa) \<longrightarrow> errors \<noteq> [] \<longrightarrow>
        apply_fixes c errors 0 (sa\<lparr> total_failures := length errors \<rparr>)
           (emit_progress c (sa\<lparr> total_failures := length errors \<rparr>) ''fixing''
              (emit_progress c (sa\<lparr> total_failures := length errors \<rparr>) ''warning'' wa))
         = (Inr 0, sb, wb) \<longrightarrow>
        fix_loop c rp bn (i # rest) self w
          = (Inr (), sb, emit_progress c sb ''error'' (emit_progress c sb ''info'' wb)))
   \<and> (max_retries self = 3 \<longrightarrow> self_fixes self = [] \<longrightarrow>
        loop_body c rp bn 0 self w = (Inr Continue, ta, ua) \<longrightarrow>
        self_fixes ta = [ra] \<longrightarrow> fr_status ra = ''Fixed'' \<longrightarrow>
        loop_body c rp bn 1 ta ua = (Inr Continue, tb, ub) \<longrightarrow>
        self_fixes tb = [ra, rb] \<longrightarrow> fr_status rb = ''Fixed'' \<longrightarrow>
        test_and_classify c rp bn 2 tb ub = (Inr [], tc, uc) \<longrightarrow>
        fix_loop c rp bn [0..<nat (max_retries self)] self w
          = (Inr (), tc, emit_progress c tc ''success'' uc)
        \<and> iterations tc = 3
        \<and> ar_iterations (generate_response tc bn) = 3
        \<and> ar_status (generate_response tc bn) = ''PASSED'')"
proof (intro conjI impI)
  assume "iterations self = 0"
  then show "iterations (fst (snd (run c self w))) \<le> nat (max_retries self)"
    by (rule run_iterations_bound)
next
  assume "test_and_classify c rp bn i self w = (Inr [], sa, wa)"
  from loop_body_none [OF this]
  show "fix_loop c rp bn (i # rest) self w = (Inr (), sa, emit_progress c sa ''success'' wa)"
    by simp
next
  assume "test_and_classify c rp bn i self w = (Inr errors, sa, wa)" and "errors \<noteq> []"
    and "apply_fixes c errors 0 (sa\<lparr> total_failures := length errors \<rparr>)
           (emit_progress c (sa\<lparr> total_failures := length errors \<rparr>) ''fixing''
              (emit_progress c (sa\<lparr> total_failures := length errors \<rparr>) ''warning'' wa))
         = (Inr 0, sb, wb)"
  then have "loop_body c rp bn i self w
         = (Inr Break, sb, emit_progress c sb ''error'' (emit_progress c sb ''info'' wb))"
    by (rule loop_body_zero_fixes)
  then show "fix_loop c rp bn (i # rest) self w
          = (Inr (), sb, emit_progress c sb ''error'' (emit_progress c sb ''info'' wb))"
    by simp
next
  assume mr: "max_retries self = 3"
    and b1: "loop_body c rp bn 0 self w = (Inr Continue, ta, ua)"
    and b2: "loop_body c rp bn 1 ta ua = (Inr Continue, tb, ub)"
    and fx: "self_fixes tb = [ra, rb]" and r1: "fr_status ra = ''Fixed''"
    and r2: "fr_status rb = ''Fixed''"
    and c3: "test_and_classify c rp bn 2 tb ub = (Inr [], tc, uc)"
  have b3: "loop_body c rp bn 2 tb ub = (Inr Break, tc, emit_progress c tc ''success'' uc)"
    by (rule loop_body_none [OF c3])
  have loop: "fix_loop c rp bn [0..<nat (max_retries self)] self w
          = (Inr (), tc, emit_progress c tc ''success'' uc)"
    unfolding mr upt_three using b1 b2 b3 by simp
  from test_and_classify_self [OF c3] have tc: "tc = tb\<lparr> iterations := 2 + 1 \<rparr>" .
  have it: "iterations tc = 3" unfolding tc by simp
  have fxc: "self_fixes tc = [ra, rb]" unfolding tc using fx by simp
  have st: "ar_status (generate_response tc bn) = ''PASSED''"
    unfolding generate_response_def Let_def fxc using r1 r2 by simp
  have ai: "ar_iterations (generate_response tc bn) = 3"
    unfolding generate_response_def Let_def using it by simp
  show "fix_loop c rp bn [0..<nat (max_retries self)] self w
          = (Inr (), tc, emit_progress c tc ''success'' uc)" by (rule loop)
  show "iterations tc = 3" by (rule it)
  show "ar_iterations (generate_response tc bn) = 3" by (rule ai)
  show "ar_status (generate_response tc bn) = ''PASSED''" by (rule st)
qed

theorem repair_loop_budget_witness:
  "max_retries prepared_runner = 3 \<and> self_fixes prepared_runner = []
   \<and> loop_body scenario_sys ''/ws/repo'' ''TEAM_LEAD_AI_FIX'' 0 prepared_runner prepared_world
       = (Inr Continue, fst after_first, snd after_first)
   \<and> self_fixes (fst after_first) = [syntax_outcome]
   \<and> loop_body scenario_sys ''/ws/repo'' ''TEAM_LEAD_AI_FIX'' 1 (fst after_first) (snd after_first)
       = (Inr Continue, fst after_second, snd after_second)
   \<and> self_fixes (fst after_second) = [syntax_outcome, import_outcome]
   \<and> test_and_classify scenario_sys ''/ws/repo'' ''TEAM_LEAD_AI_FIX'' 2
         (fst after_second) (snd after_second)
       = (Inr [], fst after_third, snd after_third)
   \<and> fix_loop scenario_sys ''/ws/repo'' ''TEAM_LEAD_AI_FIX'' [0..<nat (max_retries prepared_runner)]
         prepared_runner prepared_world
       = (Inr (), fst after_third,
          emit_progress scenario_sys (fst after_third) ''success'' (snd after_third))
   \<and> iterations (fst after_third) = 3
   \<and> ar_iterations (generate_response (fst after_third) ''TEAM_LEAD_AI_FIX'') = 3
   \<and> ar_status (generate_response (fst after_third) ''TEAM_LEAD_AI_FIX'') = ''PASSED''"
proof -
  have h0: "max_retries prepared_runner = 3" by code_simp
  have h1: "self_fixes prepared_runner = []" by code_simp
  have "fst (loop_body scenario_sys ''/ws/repo'' ''TEAM_LEAD_AI_FIX'' 0 prepared_runner prepared_world)
          = Inr Continue" by code_simp
  then have h2: "loop_body scenario_sys ''/ws/repo'' ''TEAM_LEAD_AI_FIX'' 0 prepared_runner prepared_world
       = (Inr Continue, fst after_first, snd after_first)"
    unfolding after_first_def by (rule triple_eq)
  have h3: "self_fixes (fst after_first) = [syntax_outcome]" by code_simp
  have h4: "fr_status syntax_outcome = ''Fixed''" by code_simp
  have "fst (loop_body scenario_sys ''/ws/repo'' ''TEAM_LEAD_AI_FIX'' 1 (fst after_first) (snd after_first))
          = Inr Continue" by code_simp
  then have h5: "loop_body scenario_sys ''/ws/repo'' ''TEAM_LEAD_AI_FIX'' 1 (fst after_first) (snd after_first)
       = (Inr Continue, fst after_second, snd after_second)"
    unfolding after_second_def by (rule triple_eq)
  have h6: "self_fixes (fst after_second) = [syntax_outcome, import_outcome]" by code_simp
  have h7: "fr_status import_outcome = ''Fixed''" by code_simp
  have "fst (test_and_classify scenario_sys ''/ws/repo'' ''TEAM_LEAD_AI_FIX'' 2
         (fst after_second) (snd after_second)) = Inr []" by code_simp
  then have h8: "test_and_classify scenario_sys ''/ws/repo'' ''TEAM_LEAD_AI_FIX'' 2
         (fst after_second) (snd after_second)
       = (Inr [], fst after_third, snd after_third)"
    unfolding after_third_def by (rule triple_eq)
  from repair_loop_budget [THEN conjunct2, THEN conjunct2, THEN conjunct2, rule_format,
         OF h0 h1 h2 h3 h4 h5 h6 h7 h8]
  show ?thesis using h0 h1 h2 h3 h5 h6 h8 by simp
qed

text \<open>
  The output text that \<^verbatim>\<open>_run_tests\<close> returns for the outcomes of the local command and
  of the remote call, and the loop on an empty output text.
\<close>

lemma run_tests_local_failure:
  assumes "test_command self = Some tc" and "sandbox_url self = []"
    and "fst (popen_communicate c (local_test_cmd self tc) rp w) = TimeoutExpired
         \<or> fst (popen_communicate c (local_test_cmd self tc) rp w) = ProcError"
  shows "fst (run_tests c self rp w) = Inr []"
proof -
  obtain po w1 where p: "popen_communicate c (local_test_cmd self tc) rp w = (po, w1)"
    by (rule prod.exhaust)
  with assms(3) have "po = TimeoutExpired \<or> po = ProcError" by simp
  then show ?thesis
    unfolding run_tests_def using assms(1,2) p by (elim disjE) simp_all
qed

lemma run_tests_remote_failure:
  assumes "test_command self = Some tc" and "sandbox_url self \<noteq> []"
    and "sandbox_request self = (url, token, payload)"
    and "remote_call_fails (fst (http_post c url token payload w))"
  shows "fst (run_tests c self rp w) = Inr []"
proof -
  obtain ho w1 where p: "http_post c url token payload w = (ho, w1)" by (rule prod.exhaust)
  with assms(4) have f: "remote_call_fails ho" by simp
  show ?thesis
  proof (cases ho)
    case HttpRaises
    then show ?thesis unfolding run_tests_def using assms(1,2,3) p by simp
  next
    case (HttpResponse code body)
    show ?thesis
    proof (cases "200 \<le> code \<and> code < 300")
      case False
      then show ?thesis unfolding run_tests_def using assms(1,2,3) p HttpResponse by simp
    next
      case True
      show ?thesis
      proof (cases body)
        case None
        then show ?thesis unfolding run_tests_def using assms(1,2,3) p HttpResponse True by simp
      next
        case (Some data)
        with f HttpResponse True
        have "combined_output (reply_stdout data) (reply_stderr data) = None"
          unfolding remote_call_fails_def by simp
        then show ?thesis
          unfolding run_tests_def Let_def using assms(1,2,3) p HttpResponse True Some by simp
      qed
    qed
  qed
qed

lemma run_tests_remote_answer:
  assumes "test_command self = Some tc" and "sandbox_url self \<noteq> []"
    and "sandbox_request self = (url, token, payload)"
    and "fst (http_post c url token payload w)
           = HttpResponse code (Some \<lparr> reply_stdout = JStr out, reply_stderr = JStr err,
                                        reply_timed_out = t \<rparr>)"
    and "200 \<le> code" and "code < 300"
  shows "fst (run_tests c self rp w) = Inr (out @ [NL] @ err)"
proof -
  obtain ho w1 where p: "http_post c url token payload w = (ho, w1)" by (rule prod.exhaust)
  with assms(4) have ho: "ho = HttpResponse code (Some \<lparr> reply_stdout = JStr out,
      reply_stderr = JStr err, reply_timed_out = t \<rparr>)" by simp
  show ?thesis
    unfolding run_tests_def Let_def using assms(1,2,3,5,6) p ho
    by (simp add: combined_output_def field_text_def)
qed

lemma empty_output_ends_loop:
  assumes "(if sandbox_url self \<noteq> []
            then push_branch c (git_handler self) bn
                   (emit_progress c (self\<lparr> iterations := i + 1 \<rparr>) ''testing'' w)
            else (Inr True, emit_progress c (self\<lparr> iterations := i + 1 \<rparr>) ''testing'' w))
           = (Inr True, wa)"
    and "run_tests c (self\<lparr> iterations := i + 1 \<rparr>) rp wa = (Inr [], wb)"
    and "parse_errors c [] rp = []"
  shows "fix_loop c rp bn (i # rest) self w
           = (Inr (), self\<lparr> iterations := i + 1 \<rparr>,
              emit_progress c (self\<lparr> iterations := i + 1 \<rparr>) ''success'' wb)"
proof -
  let ?s = "self\<lparr> iterations := i + 1 \<rparr>"
  have tc: "test_and_classify c rp bn i self w = (Inr [], ?s, wb)"
  proof (cases "sandbox_url self = []")
    case True
    with assms(1) have "wa = emit_progress c ?s ''testing'' w" by simp
    with assms(2,3) True show ?thesis
      unfolding test_and_classify_def Let_def by simp
  next
    case False
    with assms(1) have "push_branch c (git_handler self) bn (emit_progress c ?s ''testing'' w)
                          = (Inr True, wa)" by simp
    with assms(2,3) False show ?thesis
      unfolding test_and_classify_def Let_def by simp
  qed
  from loop_body_none [OF tc] show ?thesis by simp
qed

text \<open>
  Claim C4 does not hold for a test execution that times out inside the sandbox.  On
  \<open>timeout_host\<close> the test command exceeds its timeout; the handler of \<^verbatim>\<open>/run-tests\<close>
  answers with status 200, an empty \<^verbatim>\<open>stdout\<close>, the \<^verbatim>\<open>stderr\<close> text
  \<^verbatim>\<open>test execution timed out\<close> and \<^verbatim>\<open>timed_out\<close> set.  The orchestrator in sandbox mode
  receives that answer and returns a line feed followed by the text of \<^verbatim>\<open>stderr\<close>, which
  is not the empty text.
\<close>

theorem remote_timeout_output:
  "fst (sandbox_run_tests Map.empty timeout_host demo_request None ())
     = Inr \<lparr> tr_stdout = [], tr_stderr = ''test execution timed out'', tr_returncode = 1,
             tr_timed_out = True, tr_project_type = ''unknown'' \<rparr>
   \<and> sandbox_request sandbox_prepared
       = (''http://sandbox:9000/run-tests'', None,
          (req_repo_url demo_request, req_branch demo_request, req_timeout_sec demo_request))
   \<and> fst (run_tests sandbox_sys sandbox_prepared ''/ws/repo'' sandbox_world)
       = Inr ([NL] @ ''test execution timed out'')"
  by code_simp

text \<open>
  Claim C4, amended.  A local test execution that times out or cannot be run yields
  the empty output text, and so does a remote call that raises, is answered with a
  status outside 200 to 299, or is answered with a body that is no JSON object with
  string fields.  A remote call that is answered with a status from 200 to 299 and
  string fields yields \<^verbatim>\<open>stdout\<close>, a line feed and \<^verbatim>\<open>stderr\<close>, also when the answer says that
  the tests timed out in the sandbox.  When the output text of an iteration is empty
  and the parser finds no failure in the empty text, the loop ends with that
  iteration.
\<close>

theorem failed_test_execution_output:
  "(test_command self = Some tc \<longrightarrow> sandbox_url self = [] \<longrightarrow>
      fst (popen_communicate c (local_test_cmd self tc) rp w) = TimeoutExpired
      \<or> fst (popen_communicate c (local_test_cmd self tc) rp w) = ProcError \<longrightarrow>
      fst (run_tests c self rp w) = Inr [])
   \<and> (test_command self = Some tc \<longrightarrow> sandbox_url self \<noteq> [] \<longrightarrow>
        sandbox_request self = (url, token, payload) \<longrightarrow>
        remote_call_fails (fst (http_post c url token payload w)) \<longrightarrow>
        fst (run_tests c self rp w) = Inr [])
   \<and> (test_command self = Some tc \<longrightarrow> sandbox_url self \<noteq> [] \<longrightarrow>
        sandbox_request self = (url, token, payload) \<longrightarrow>
        fst (http_post c url token payload w)
          = HttpResponse code (Some \<lparr> reply_stdout = JStr out, reply_stderr = JStr err,
                                       reply_timed_out = t \<rparr>) \<longrightarrow>
        200 \<le> code \<longrightarrow> code < 300 \<longrightarrow>
        fst (run_tests c self rp w) = Inr (out @ [NL] @ err))
   \<and> ((if sandbox_url self \<noteq> []
         then push_branch c (git_handler self) bn
                (emit_progress c (self\<lparr> iterations := i + 1 \<rparr>) ''testing'' w)
         else (Inr True, emit_progress c (self\<lparr> iterations := i + 1 \<rparr>) ''testing'' w))
        = (Inr True, wa) \<longrightarrow>
        run_tests c (self\<lparr> iterations := i + 1 \<rparr>) rp wa = (Inr [], wb) \<longrightarrow>
        parse_errors c [] rp = [] \<longrightarrow>
        fix_loop c rp bn (i # rest) self w
          = (Inr (), self\<lparr> iterations := i + 1 \<rparr>,
             emit_progress c (self\<lparr> iterations := i + 1 \<rparr>) ''success'' wb))"
proof (intro conjI impI)
  assume "test_command self = Some tc" and "sandbox_url self = []"
    and "fst (popen_communicate c (local_test_cmd self tc) rp w) = TimeoutExpired
         \<or> fst (popen_communicate c (local_test_cmd self tc) rp w) = ProcError"
  then show "fst (run_tests c self rp w) = Inr []" by (rule run_tests_local_failure)
next
  assume "test_command self = Some tc" and "sandbox_url self \<noteq> []"
    and "sandbox_request self = (url, token, payload)"
    and "remote_call_fails (fst (http_post c url token payload w))"
  then show "fst (run_tests c self rp w) = Inr []" by (rule run_tests_remote_failure)
next
  assume "test_command self = Some tc" and "sandbox_url self \<noteq> []"
    and "sandbox_request self = (url, token, payload)"
    and "fst (http_post c url token payload w)
          = HttpResponse code (Some \<lparr> reply_stdout = JStr out, reply_stderr = JStr err,
                                       reply_timed_out = t \<rparr>)"
    and "200 \<le> code" and "code < 300"
  then show "fst (run_tests c self rp w) = Inr (out @ [NL] @ err)"
    by (rule run_tests_remote_answer)
next
  assume "(if sandbox_url self \<noteq> []
         then push_branch c (git_handler self) bn
                (emit_progress c (self\<lparr> iterations := i + 1 \<rparr>) ''testing'' w)
         else (Inr True, emit_progress c (self\<lparr> iterations := i + 1 \<rparr>) ''testing'' w))
        = (Inr True, wa)"
    and "run_tests c (self\<lparr> iterations := i + 1 \<rparr>) rp wa = (Inr [], wb)"
    and "parse_errors c [] rp = []"
  then show "fix_loop c rp bn (i # rest) self w
          = (Inr (), self\<lparr> iterations := i + 1 \<rparr>,
             emit_progress c (self\<lparr> iterations := i + 1 \<rparr>) ''success'' wb)"
    by (rule empty_output_ends_loop)
qed

theorem failed_test_execution_output_witness:
  "test_command timeout_runner = Some [''pytest'', ''--maxfail=10'', ''-v'']
   \<and> sandbox_url timeout_runner = []
   \<and> fst (popen_communicate timeout_tests_sys
            (local_test_cmd timeout_runner [''pytest'', ''--maxfail=10'', ''-v''])
            ''/ws/repo'' timeout_world) = TimeoutExpired
   \<and> fst (run_tests timeout_tests_sys timeout_runner ''/ws/repo'' timeout_world) = Inr []
   \<and> parse_errors timeout_tests_sys [] ''/ws/repo'' = []
   \<and> fst (fix_loop timeout_tests_sys ''/ws/repo'' ''TEAM_LEAD_AI_FIX'' [0, 1, 2]
            timeout_runner timeout_world) = Inr ()
   \<and> iterations (fst (snd (fix_loop timeout_tests_sys ''/ws/repo'' ''TEAM_LEAD_AI_FIX'' [0, 1, 2]
            timeout_runner timeout_world))) = 1"
proof -
  have a: "test_command timeout_runner = Some [''pytest'', ''--maxfail=10'', ''-v'']"
    by code_simp
  have b: "sandbox_url timeout_runner = []" by code_simp
  have c: "fst (popen_communicate timeout_tests_sys
            (local_test_cmd timeout_runner [''pytest'', ''--maxfail=10'', ''-v''])
            ''/ws/repo'' timeout_world) = TimeoutExpired
         \<or> fst (popen_communicate timeout_tests_sys
            (local_test_cmd timeout_runner [''pytest'', ''--maxfail=10'', ''-v''])
            ''/ws/repo'' timeout_world) = ProcError" by code_simp
  have c': "fst (popen_communicate timeout_tests_sys
            (local_test_cmd timeout_runner [''pytest'', ''--maxfail=10'', ''-v''])
            ''/ws/repo'' timeout_world) = TimeoutExpired" by code_simp
  have d: "(if sandbox_url timeout_runner \<noteq> []
         then push_branch timeout_tests_sys (git_handler timeout_runner) ''TEAM_LEAD_AI_FIX''
                (emit_progress timeout_tests_sys (timeout_runner\<lparr> iterations := 0 + 1 \<rparr>)
                   ''testing'' timeout_world)
         else (Inr True, emit_progress timeout_tests_sys (timeout_runner\<lparr> iterations := 0 + 1 \<rparr>)
                   ''testing'' timeout_world))
        = (Inr True, emit_progress timeout_tests_sys (timeout_runner\<lparr> iterations := 0 + 1 \<rparr>)
                   ''testing'' timeout_world)" using b by simp
  have "fst (run_tests timeout_tests_sys (timeout_runner\<lparr> iterations := 0 + 1 \<rparr>) ''/ws/repo''
          (emit_progress timeout_tests_sys (timeout_runner\<lparr> iterations := 0 + 1 \<rparr>)
                   ''testing'' timeout_world)) = Inr []" by code_simp
  then have e: "run_tests timeout_tests_sys (timeout_runner\<lparr> iterations := 0 + 1 \<rparr>) ''/ws/repo''
          (emit_progress timeout_tests_sys (timeout_runner\<lparr> iterations := 0 + 1 \<rparr>)
                   ''testing'' timeout_world)
        = (Inr [], snd (run_tests timeout_tests_sys (timeout_runner\<lparr> iterations := 0 + 1 \<rparr>)
              ''/ws/repo''
              (emit_progress timeout_tests_sys (timeout_runner\<lparr> iterations := 0 + 1 \<rparr>)
                   ''testing'' timeout_world)))"
    by (simp add: prod_eq_iff)
  have f: "parse_errors timeout_tests_sys [] ''/ws/repo'' = []" by code_simp
  from failed_test_execution_output [THEN conjunct1, rule_format, OF a b c]
    failed_test_execution_output [THEN conjunct2, THEN conjunct2, THEN conjunct2, rule_format,
      OF d e f, of "[1, 2]"]
  show ?thesis using a b c' f by simp
qed








end
